theory Spec2Isabelle
  imports Main
begin

section \<open>tasklog: a task log kept in a CSV file, queried through Ollama\<close>

text \<open>
  A shallow embedding of \<^verbatim>\<open>tasklog.py\<close>. The functions of the script keep their
  names. What the script gets from outside is explicit:
  \<^item> the file \<^verbatim>\<open>tasklog.csv\<close>, standard output and the HTTP requests issued are the
    fields of a \<open>world\<close> that every function takes and returns;
  \<^item> the clock and the behaviour of the inference service are an \<open>env\<close>;
  \<^item> Python's \<^verbatim>\<open>float\<close> type and \<^verbatim>\<open>date.fromisoformat\<close> are parameters (a \<open>pylib\<close>):
    the script only converts, compares with zero and prints its floats;
  \<^item> an exception is a value of type \<open>exn\<close>, and a function that can raise returns
    \<open>exn + 'a\<close>.
  The \<^verbatim>\<open>csv\<close> module is modelled at the level of characters (writer and reader of the
  default dialect), since the script's behaviour on a store depends on what bytes the
  file holds. Resource limits (an unwritable medium, the reader's field size limit) and
  text encodings are outside the model: a string is a list of characters.
\<close>

subsection \<open>Characters and numbers as text\<close>

abbreviation LF :: char where "LF \<equiv> CHR 0x0A"
abbreviation CR :: char where "CR \<equiv> CHR 0x0D"
abbreviation DQUOTE :: char where "DQUOTE \<equiv> CHR 0x22"
abbreviation SQUOTE :: char where "SQUOTE \<equiv> CHR 0x27"
abbreviation COMMA :: char where "COMMA \<equiv> CHR '',''"

text \<open>\<^verbatim>\<open>str(n)\<close> for a natural number.\<close>

fun str_nat :: "nat \<Rightarrow> string" where
  "str_nat n =
     (if n < 10 then [''0123456789'' ! n]
      else str_nat (n div 10) @ [''0123456789'' ! (n mod 10)])"

text \<open>\<^verbatim>\<open>'%0wd' % n\<close>: decimal digits, padded with zeros on the left to width \<open>w\<close>.\<close>

definition zero_pad :: "nat \<Rightarrow> nat \<Rightarrow> string" where
  "zero_pad w n = replicate (w - length (str_nat n)) CHR ''0'' @ str_nat n"

subsection \<open>Exceptions\<close>

text \<open>
  The exception classes the script can meet, each with its \<^verbatim>\<open>str(e)\<close>. The classes
  of \<^verbatim>\<open>requests.exceptions\<close> are three constructors for the three cases the handlers
  tell apart, and \<open>RequestsJSONDecodeError\<close> is the class \<^verbatim>\<open>requests\<close> raises
  from \<^verbatim>\<open>Response.json()\<close> since version 2.27, which inherits from both
  \<^verbatim>\<open>RequestException\<close> and \<^verbatim>\<open>json.JSONDecodeError\<close>; \<open>JSONDecodeError\<close> is
  \<^verbatim>\<open>json.JSONDecodeError\<close> raised directly (older versions). The script reads the
  text of an exception of \<^verbatim>\<open>requests\<close> only; the texts given to the other exceptions
  below are indicative.
\<close>

datatype exn =
    ConnectionError string
  | HTTPError string
  | RequestException string
  | RequestsJSONDecodeError string
  | JSONDecodeError string
  | AttributeError string
  | KeyError string
  | TypeError string
  | ValueError string
  | CsvError string
  | OtherException string

fun exn_str :: "exn \<Rightarrow> string" where
  "exn_str (ConnectionError m) = m"
| "exn_str (HTTPError m) = m"
| "exn_str (RequestException m) = m"
| "exn_str (RequestsJSONDecodeError m) = m"
| "exn_str (JSONDecodeError m) = m"
| "exn_str (AttributeError m) = m"
| "exn_str (KeyError m) = m"
| "exn_str (TypeError m) = m"
| "exn_str (ValueError m) = m"
| "exn_str (CsvError m) = m"
| "exn_str (OtherException m) = m"

text \<open>\<^verbatim>\<open>isinstance(e, requests.exceptions.ConnectionError)\<close> and the two other class tests.\<close>

fun is_ConnectionError :: "exn \<Rightarrow> bool" where
  "is_ConnectionError (ConnectionError m) = True"
| "is_ConnectionError e = False"

fun is_RequestException :: "exn \<Rightarrow> bool" where
  "is_RequestException (ConnectionError m) = True"
| "is_RequestException (HTTPError m) = True"
| "is_RequestException (RequestException m) = True"
| "is_RequestException (RequestsJSONDecodeError m) = True"
| "is_RequestException e = False"

fun is_JSONDecodeError :: "exn \<Rightarrow> bool" where
  "is_JSONDecodeError (RequestsJSONDecodeError m) = True"
| "is_JSONDecodeError (JSONDecodeError m) = True"
| "is_JSONDecodeError e = False"

subsection \<open>The csv module: writer\<close>

text \<open>
  \<^verbatim>\<open>csv.writer(f).writerow(fields)\<close> in the default dialect (delimiter \<^verbatim>\<open>,\<close>, quote
  character \<^verbatim>\<open>"\<close>, minimal quoting, doubled quotes, line terminator CR LF): a field
  is quoted when it holds the delimiter, the quote character or a character of the
  line terminator; a row of one empty field is written as \<^verbatim>\<open>""\<close>.
\<close>

definition csv_needs_quotes :: "string \<Rightarrow> bool" where
  "csv_needs_quotes s = list_ex (\<lambda>c. c = COMMA \<or> c = DQUOTE \<or> c = CR \<or> c = LF) s"

fun csv_double_quotes :: "string \<Rightarrow> string" where
  "csv_double_quotes [] = []"
| "csv_double_quotes (c # cs) =
     (if c = DQUOTE then DQUOTE # DQUOTE # csv_double_quotes cs
      else c # csv_double_quotes cs)"

definition csv_field :: "string \<Rightarrow> string" where
  "csv_field s =
     (if csv_needs_quotes s then DQUOTE # csv_double_quotes s @ [DQUOTE] else s)"

fun csv_join :: "string list \<Rightarrow> string" where
  "csv_join [] = []"
| "csv_join [s] = s"
| "csv_join (s # t # ts) = s @ COMMA # csv_join (t # ts)"

definition csv_writerow :: "string list \<Rightarrow> string" where
  "csv_writerow fields =
     (if fields = [[]] then [DQUOTE, DQUOTE] else csv_join (map csv_field fields))
     @ [CR, LF]"

subsection \<open>The csv module: reader\<close>

text \<open>
  The file is opened with \<^verbatim>\<open>newline=''\<close>: iterating over it yields its lines, split
  after LF, after CR LF and after a CR that no LF follows, terminators kept. The reader
  feeds its state machine every character of a line and then an end-of-line token
  (\<open>None\<close>): \<open>file_tokens\<close> is the sequence of tokens a file gives.
\<close>

fun file_tokens :: "string \<Rightarrow> char option list" where
  "file_tokens [] = []"
| "file_tokens (c # cs) =
     Some c
     # (if c = LF \<or> (c = CR \<and> (case cs of [] \<Rightarrow> True | d # ds \<Rightarrow> d \<noteq> LF)) \<or> cs = []
        then [None] else [])
     @ file_tokens cs"

text \<open>
  The reader's state machine (\<^verbatim>\<open>parse_process_char\<close> of \<^verbatim>\<open>_csv.c\<close>) for the default
  dialect: no escape character, doubled quotes, not strict. The reader is the state,
  the fields completed so far and the characters of the field being read. A token is
  a character of the line, or \<open>None\<close> for the end of the line.
\<close>

datatype parser_state =
  START_RECORD | START_FIELD | IN_FIELD | IN_QUOTED_FIELD | QUOTE_IN_QUOTED_FIELD | EAT_CRNL

type_synonym reader = "parser_state \<times> string list \<times> string"

definition parse_start_field :: "string list \<Rightarrow> string \<Rightarrow> char option \<Rightarrow> exn + reader" where
  "parse_start_field fs f t =
     (case t of
        None \<Rightarrow> Inr (START_RECORD, fs @ [f], [])
      | Some c \<Rightarrow>
          if c = LF \<or> c = CR then Inr (EAT_CRNL, fs @ [f], [])
          else if c = DQUOTE then Inr (IN_QUOTED_FIELD, fs, f)
          else if c = COMMA then Inr (START_FIELD, fs @ [f], [])
          else Inr (IN_FIELD, fs, f @ [c]))"

fun parse_process_char :: "reader \<Rightarrow> char option \<Rightarrow> exn + reader" where
  "parse_process_char (START_RECORD, fs, f) t =
     (case t of
        None \<Rightarrow> Inr (START_RECORD, fs, f)
      | Some c \<Rightarrow>
          if c = LF \<or> c = CR then Inr (EAT_CRNL, fs, f)
          else parse_start_field fs f t)"
| "parse_process_char (START_FIELD, fs, f) t = parse_start_field fs f t"
| "parse_process_char (IN_FIELD, fs, f) t =
     (case t of
        None \<Rightarrow> Inr (START_RECORD, fs @ [f], [])
      | Some c \<Rightarrow>
          if c = LF \<or> c = CR then Inr (EAT_CRNL, fs @ [f], [])
          else if c = COMMA then Inr (START_FIELD, fs @ [f], [])
          else Inr (IN_FIELD, fs, f @ [c]))"
| "parse_process_char (IN_QUOTED_FIELD, fs, f) t =
     (case t of
        None \<Rightarrow> Inr (IN_QUOTED_FIELD, fs, f)
      | Some c \<Rightarrow>
          if c = DQUOTE then Inr (QUOTE_IN_QUOTED_FIELD, fs, f)
          else Inr (IN_QUOTED_FIELD, fs, f @ [c]))"
| "parse_process_char (QUOTE_IN_QUOTED_FIELD, fs, f) t =
     (case t of
        None \<Rightarrow> Inr (START_RECORD, fs @ [f], [])
      | Some c \<Rightarrow>
          if c = DQUOTE then Inr (IN_QUOTED_FIELD, fs, f @ [c])
          else if c = COMMA then Inr (START_FIELD, fs @ [f], [])
          else if c = LF \<or> c = CR then Inr (EAT_CRNL, fs @ [f], [])
          else Inr (IN_FIELD, fs, f @ [c]))"
| "parse_process_char (EAT_CRNL, fs, f) t =
     (case t of
        None \<Rightarrow> Inr (START_RECORD, fs, f)
      | Some c \<Rightarrow>
          if c = LF \<or> c = CR then Inr (EAT_CRNL, fs, f)
          else Inl (CsvError ''new-line character seen in unquoted field''))"

text \<open>
  \<^verbatim>\<open>Reader_iternext\<close>, called until the lines run out: a record is complete when a
  line ends (the end-of-line token has been processed) in state \<open>START_RECORD\<close>, and
  the next record starts from a reset reader; at the end of the input a record left
  open (a quoted field that never closes) is returned as it stands. The reader is
  lazy, so the result is the records read before the first error, with that error if
  there is one.
\<close>

fun reader_rows :: "reader \<Rightarrow> char option list \<Rightarrow> string list list \<times> exn option" where
  "reader_rows (st, fs, f) [] =
     (if f \<noteq> [] \<or> st = IN_QUOTED_FIELD then ([fs @ [f]], None) else ([], None))"
| "reader_rows (st, fs, f) (t # ts) =
     (case parse_process_char (st, fs, f) t of
        Inl e \<Rightarrow> ([], Some e)
      | Inr (st', fs', f') \<Rightarrow>
          if t = None \<and> st' = START_RECORD then
            (case reader_rows (START_RECORD, [], []) ts of (rs, e) \<Rightarrow> (fs' # rs, e))
          else reader_rows (st', fs', f') ts)"

definition csv_reader :: "string \<Rightarrow> string list list \<times> exn option" where
  "csv_reader content = reader_rows (START_RECORD, [], []) (file_tokens content)"

subsection \<open>Python values, the library parameters, dictionaries\<close>

text \<open>
  The values a row dictionary holds: a string read from the file, the float that
  \<^verbatim>\<open>read_tasks\<close> puts under \<^verbatim>\<open>hours\<close>, or \<^verbatim>\<open>None\<close> for a field the line lacks.
\<close>

datatype 'h pyval = PStr string | PFloat 'h | PNone

text \<open>
  What the script uses of Python's floats and dates, over a type \<open>'h\<close> of floats:
  \<^verbatim>\<open>float(s)\<close> (\<open>None\<close> for a \<^verbatim>\<open>ValueError\<close>), \<^verbatim>\<open>str(h)\<close>, \<^verbatim>\<open>h < 0\<close>, and whether
  \<^verbatim>\<open>datetime.date.fromisoformat(s)\<close> returns rather than raising \<^verbatim>\<open>ValueError\<close>.
\<close>

record 'h pylib =
  float_of :: "string \<Rightarrow> 'h option"
  float_str :: "'h \<Rightarrow> string"
  float_neg :: "'h \<Rightarrow> bool"
  fromisoformat :: "string \<Rightarrow> bool"

text \<open>\<^verbatim>\<open>str(v)\<close>, as an f-string renders a value.\<close>

fun py_str :: "'h pylib \<Rightarrow> 'h pyval \<Rightarrow> string" where
  "py_str L (PStr s) = s"
| "py_str L (PFloat h) = float_str L h"
| "py_str L PNone = ''None''"

text \<open>
  A dictionary with string keys, in insertion order. \<^verbatim>\<open>d[k] = v\<close> keeps the place
  of a key that is present; \<^verbatim>\<open>d[k]\<close> raises \<^verbatim>\<open>KeyError\<close> for a key that is absent.
\<close>

type_synonym 'v dict = "(string \<times> 'v) list"

fun dict_set :: "string \<Rightarrow> 'v \<Rightarrow> 'v dict \<Rightarrow> 'v dict" where
  "dict_set k v [] = [(k, v)]"
| "dict_set k v ((k', v') # kvs) =
     (if k = k' then (k, v) # kvs else (k', v') # dict_set k v kvs)"

definition getitem :: "'v dict \<Rightarrow> string \<Rightarrow> exn + 'v" where
  "getitem d k =
     (case map_of d k of
        None \<Rightarrow> Inl (KeyError (SQUOTE # k @ [SQUOTE]))
      | Some v \<Rightarrow> Inr v)"

subsection \<open>csv.DictReader\<close>

text \<open>
  A row becomes \<^verbatim>\<open>dict(zip(fieldnames, row))\<close>, and the field names the row is too
  short for are bound to \<^verbatim>\<open>None\<close>. (Surplus fields go under the key \<^verbatim>\<open>None\<close>, which
  the script never reads: the model leaves that entry out.)
\<close>

definition dict_of_row :: "string list \<Rightarrow> string list \<Rightarrow> 'h pyval dict" where
  "dict_of_row fieldnames row =
     fold (\<lambda>k d. dict_set k PNone d) (drop (length row) fieldnames)
       (fold (\<lambda>(k, v) d. dict_set k (PStr v) d) (zip fieldnames row) [])"

subsection \<open>datetime\<close>

record datetime =
  year :: nat
  month :: nat
  day :: nat
  hour :: nat
  minute :: nat
  second :: nat
  microsecond :: nat

text \<open>\<^verbatim>\<open>datetime.isoformat()\<close> of a naive datetime.\<close>

definition isoformat :: "datetime \<Rightarrow> string" where
  "isoformat t =
     zero_pad 4 (year t) @ ''-'' @ zero_pad 2 (month t) @ ''-'' @ zero_pad 2 (day t)
     @ ''T'' @ zero_pad 2 (hour t) @ '':'' @ zero_pad 2 (minute t) @ '':''
     @ zero_pad 2 (second t)
     @ (if microsecond t = 0 then [] else ''.'' @ zero_pad 6 (microsecond t))"

subsection \<open>JSON values and the HTTP exchange\<close>

datatype json =
  JNull | JBool bool | JNum string | JStr string | JArr "json list" | JObj "(string \<times> json) list"

text \<open>
  \<^verbatim>\<open>result.get(key, default)\<close>: only a dictionary has the method; on any other
  decoded value the attribute lookup raises \<^verbatim>\<open>AttributeError\<close>.
\<close>

fun json_get :: "json \<Rightarrow> string \<Rightarrow> json \<Rightarrow> exn + json" where
  "json_get (JObj kvs) k dflt = Inr (case map_of kvs k of None \<Rightarrow> dflt | Some v \<Rightarrow> v)"
| "json_get JNull k dflt = Inl (AttributeError ''NoneType object has no attribute get'')"
| "json_get (JBool b) k dflt = Inl (AttributeError ''bool object has no attribute get'')"
| "json_get (JNum n) k dflt = Inl (AttributeError ''number object has no attribute get'')"
| "json_get (JStr s) k dflt = Inl (AttributeError ''str object has no attribute get'')"
| "json_get (JArr xs) k dflt = Inl (AttributeError ''list object has no attribute get'')"

text \<open>
  A response: its status line, and what \<^verbatim>\<open>response.json()\<close> does (the decoded body,
  or the exception raised for a body that is not JSON).
\<close>

record response =
  status_code :: nat
  reason :: string
  json_body :: "exn + json"

record payload =
  model :: string
  prompt :: string
  stream :: bool

definition raise_for_status :: "string \<Rightarrow> response \<Rightarrow> exn option" where
  "raise_for_status url r =
     (if 400 \<le> status_code r \<and> status_code r < 500 then
        Some (HTTPError (str_nat (status_code r) @ '' Client Error: '' @ reason r
                         @ '' for url: '' @ url))
      else if 500 \<le> status_code r \<and> status_code r < 600 then
        Some (HTTPError (str_nat (status_code r) @ '' Server Error: '' @ reason r
                         @ '' for url: '' @ url))
      else None)"

subsection \<open>The world and the environment\<close>

datatype printed = Line string | Obj json | Help

text \<open>
  \<open>csv_file\<close> is the content of \<^verbatim>\<open>tasklog.csv\<close> (\<open>None\<close> when the file does not
  exist), \<open>stdout\<close> what has been printed, \<open>posts\<close> the requests sent so far.
\<close>

record world =
  csv_file :: "string option"
  stdout :: "printed list"
  posts :: "(string \<times> payload) list"

text \<open>
  \<open>now\<close> is what \<^verbatim>\<open>datetime.datetime.now()\<close> returns, \<open>post\<close> what
  \<^verbatim>\<open>requests.post(url, json=payload)\<close> does: a response, or an exception.
\<close>

record env =
  now :: datetime
  post :: "string \<Rightarrow> payload \<Rightarrow> exn + response"

definition print :: "string \<Rightarrow> world \<Rightarrow> world" where
  "print s w = w\<lparr>stdout := stdout w @ [Line s]\<rparr>"

definition print_value :: "json \<Rightarrow> world \<Rightarrow> world" where
  "print_value v w =
     w\<lparr>stdout := stdout w @ [case v of JStr s \<Rightarrow> Line s | _ \<Rightarrow> Obj v]\<rparr>"

subsection \<open>Constants\<close>

definition CSV_HEADERS :: "string list" where
  "CSV_HEADERS = [''timestamp'', ''date'', ''task'', ''hours'']"

definition OLLAMA_API_URL :: string where
  "OLLAMA_API_URL = ''http://localhost:11434/api/generate''"

definition DEFAULT_MODEL :: string where
  "DEFAULT_MODEL = ''llama3''"

subsection \<open>Command-line arguments\<close>

text \<open>
  The namespace \<^verbatim>\<open>parse_args\<close> returns: no command, \<^verbatim>\<open>add\<close> with task, date and
  hours (already a float: \<^verbatim>\<open>type=float\<close>), or \<^verbatim>\<open>query\<close> with question and model.
  \<open>ArgumentError\<close> is a command line that \<^verbatim>\<open>argparse\<close> rejects.
\<close>

datatype 'h args = NoCommand | Add string string 'h | Query string string

datatype 'h invocation = ArgumentError | Parsed "'h args"

text \<open>How a run ends: \<^verbatim>\<open>main\<close> returns, calls \<^verbatim>\<open>sys.exit(n)\<close>, or an exception escapes.\<close>

datatype outcome = Returned | SysExit nat | Uncaught exn

fun exit_status :: "outcome \<Rightarrow> nat" where
  "exit_status Returned = 0"
| "exit_status (SysExit n) = n"
| "exit_status (Uncaught e) = 1"

subsection \<open>validate_args\<close>

text \<open>
  For \<^verbatim>\<open>add\<close>, the date is checked first and the hours second; each failure prints
  its message and returns \<open>False\<close>. Any other command has nothing to check.
\<close>

fun validate_args :: "'h pylib \<Rightarrow> 'h args \<Rightarrow> world \<Rightarrow> world \<times> bool" where
  "validate_args L (Add task date hours) w =
     (if \<not> fromisoformat L date then
        (print ''Error: Invalid date format. Please use YYYY-MM-DD format.'' w, False)
      else if float_neg L hours then
        (print ''Error: Hours must be a non-negative number.'' w, False)
      else (w, True))"
| "validate_args L NoCommand w = (w, True)"
| "validate_args L (Query question m) w = (w, True)"

subsection \<open>The store\<close>

definition ensure_csv_exists :: "world \<Rightarrow> world" where
  "ensure_csv_exists w =
     (if csv_file w = None then w\<lparr>csv_file := Some (csv_writerow CSV_HEADERS)\<rparr> else w)"

text \<open>Writing to a file opened with mode \<^verbatim>\<open>'a'\<close>, which creates a file that is absent.\<close>

definition append_file :: "string \<Rightarrow> world \<Rightarrow> world" where
  "append_file s w =
     w\<lparr>csv_file := Some ((case csv_file w of None \<Rightarrow> [] | Some c \<Rightarrow> c) @ s)\<rparr>"

definition add_task :: "'h pylib \<Rightarrow> env \<Rightarrow> string \<Rightarrow> string \<Rightarrow> 'h \<Rightarrow> world \<Rightarrow> world" where
  "add_task L E task date hours w =
     (let w1 = ensure_csv_exists w;
          timestamp = isoformat (now E);
          w2 = append_file (csv_writerow [timestamp, date, task, float_str L hours]) w1
      in print (''Task added: '' @ [SQUOTE] @ task @ [SQUOTE] @ '' on '' @ date
                @ '' ('' @ float_str L hours @ '' hours)'') w2)"

text \<open>
  The body of the loop of \<^verbatim>\<open>read_tasks\<close>: \<^verbatim>\<open>row['hours'] = float(row['hours'])\<close>.
  \<^verbatim>\<open>float\<close> raises \<^verbatim>\<open>ValueError\<close> for a string it cannot parse and \<^verbatim>\<open>TypeError\<close> for
  \<^verbatim>\<open>None\<close>.
\<close>

definition convert_hours :: "'h pylib \<Rightarrow> 'h pyval dict \<Rightarrow> exn + 'h pyval dict" where
  "convert_hours L row =
     (case getitem row ''hours'' of
        Inl e \<Rightarrow> Inl e
      | Inr PNone \<Rightarrow> Inl (TypeError ''float() argument must be a string or a real number'')
      | Inr (PFloat h) \<Rightarrow> Inr (dict_set ''hours'' (PFloat h) row)
      | Inr (PStr s) \<Rightarrow>
          (case float_of L s of
             None \<Rightarrow> Inl (ValueError (''could not convert string to float: '' @ s))
           | Some h \<Rightarrow> Inr (dict_set ''hours'' (PFloat h) row)))"

text \<open>
  The loop over the \<^verbatim>\<open>DictReader\<close>: blank rows are skipped, every other row is
  converted and appended to \<open>tasks\<close>. \<open>err\<close> is the error the reader raises once the
  rows before it have been consumed.
\<close>

fun read_loop ::
  "'h pylib \<Rightarrow> string list \<Rightarrow> string list list \<Rightarrow> exn option \<Rightarrow> 'h pyval dict list
   \<Rightarrow> exn + 'h pyval dict list" where
  "read_loop L fieldnames [] err tasks = (case err of None \<Rightarrow> Inr tasks | Some e \<Rightarrow> Inl e)"
| "read_loop L fieldnames (r # rs) err tasks =
     (if r = [] then read_loop L fieldnames rs err tasks
      else
        (case convert_hours L (dict_of_row fieldnames r) of
           Inl e \<Rightarrow> Inl e
         | Inr row \<Rightarrow> read_loop L fieldnames rs err (tasks @ [row])))"

definition read_tasks :: "'h pylib \<Rightarrow> world \<Rightarrow> world \<times> (exn + 'h pyval dict list)" where
  "read_tasks L w =
     (let w1 = ensure_csv_exists w
      in (w1,
          case csv_file w1 of
            None \<Rightarrow> Inl (OtherException ''FileNotFoundError'')
          | Some content \<Rightarrow>
              (case csv_reader content of
                 ([], err) \<Rightarrow> (case err of None \<Rightarrow> Inr [] | Some e \<Rightarrow> Inl e)
               | (fieldnames # rows, err) \<Rightarrow> read_loop L fieldnames rows err [])))"

subsection \<open>The prompt\<close>

text \<open>
  Lines 121 to 135 of \<^verbatim>\<open>query_tasks_with_ollama\<close>. One line of the enumeration
  reads the keys \<^verbatim>\<open>date\<close>, \<^verbatim>\<open>hours\<close> and \<^verbatim>\<open>task\<close> in this order; the loop adds the
  lines to \<open>tasks_data\<close>, counting from 1.
\<close>

definition task_line :: "'h pylib \<Rightarrow> nat \<Rightarrow> 'h pyval dict \<Rightarrow> exn + string" where
  "task_line L i task =
     (case getitem task ''date'' of
        Inl e \<Rightarrow> Inl e
      | Inr d \<Rightarrow>
          (case getitem task ''hours'' of
             Inl e \<Rightarrow> Inl e
           | Inr h \<Rightarrow>
               (case getitem task ''task'' of
                  Inl e \<Rightarrow> Inl e
                | Inr t \<Rightarrow>
                    Inr (str_nat i @ ''. Date: '' @ py_str L d @ '', Hours: '' @ py_str L h
                         @ '', Task: '' @ py_str L t @ [LF]))))"

fun format_tasks :: "'h pylib \<Rightarrow> nat \<Rightarrow> 'h pyval dict list \<Rightarrow> string \<Rightarrow> exn + string" where
  "format_tasks L i [] tasks_data = Inr tasks_data"
| "format_tasks L i (task # tasks) tasks_data =
     (case task_line L i task of
        Inl e \<Rightarrow> Inl e
      | Inr l \<Rightarrow> format_tasks L (Suc i) tasks (tasks_data @ l))"

definition prompt_preamble :: string where
  "prompt_preamble =
     [LF] @ ''You are a helpful assistant analyzing task log data. Please answer the following question based on the task data provided.''
     @ [LF, LF]"

definition prompt_closing :: string where
  "prompt_closing =
     [LF, LF] @ ''Please provide a clear and concise answer based only on the task data provided.''
     @ [LF]"

definition build_prompt :: "'h pylib \<Rightarrow> string \<Rightarrow> 'h pyval dict list \<Rightarrow> exn + string" where
  "build_prompt L question tasks =
     (case format_tasks L 1 tasks (''Task data:'' @ [LF]) of
        Inl e \<Rightarrow> Inl e
      | Inr tasks_data \<Rightarrow>
          Inr (prompt_preamble @ tasks_data @ [LF, LF] @ ''Question: '' @ question
               @ prompt_closing))"

subsection \<open>query_tasks_with_ollama\<close>

text \<open>The body of the \<^verbatim>\<open>try\<close> block: the request, the status check, the decoding, the answer.\<close>

definition ollama_request :: "env \<Rightarrow> payload \<Rightarrow> exn + json" where
  "ollama_request E pl =
     (case post E OLLAMA_API_URL pl of
        Inl e \<Rightarrow> Inl e
      | Inr r \<Rightarrow>
          (case raise_for_status OLLAMA_API_URL r of
             Some e \<Rightarrow> Inl e
           | None \<Rightarrow>
               (case json_body r of
                  Inl e \<Rightarrow> Inl e
                | Inr result \<Rightarrow>
                    json_get result ''response'' (JStr ''No response received from Ollama.''))))"

text \<open>
  The three \<^verbatim>\<open>except\<close> clauses, tried in the order of the source; an exception none
  of them matches propagates.
\<close>

definition ollama_except :: "exn \<Rightarrow> exn + json" where
  "ollama_except e =
     (if is_ConnectionError e then
        Inr (JStr ''Error: Could not connect to Ollama. Make sure Ollama is running (ollama serve).'')
      else if is_RequestException e then
        Inr (JStr (''Error communicating with Ollama: '' @ exn_str e))
      else if is_JSONDecodeError e then
        Inr (JStr ''Error: Received invalid response from Ollama.'')
      else Inl e)"

definition query_tasks_with_ollama ::
  "'h pylib \<Rightarrow> env \<Rightarrow> string \<Rightarrow> 'h pyval dict list \<Rightarrow> string \<Rightarrow> world \<Rightarrow> world \<times> (exn + json)" where
  "query_tasks_with_ollama L E question tasks m w =
     (case build_prompt L question tasks of
        Inl e \<Rightarrow> (w, Inl e)
      | Inr p \<Rightarrow>
          (let pl = \<lparr>model = m, prompt = p, stream = False\<rparr>
           in (w\<lparr>posts := posts w @ [(OLLAMA_API_URL, pl)]\<rparr>,
               case ollama_request E pl of
                 Inr answer \<Rightarrow> Inr answer
               | Inl e \<Rightarrow> ollama_except e)))"

subsection \<open>query_tasks and main\<close>

definition query_tasks :: "'h pylib \<Rightarrow> env \<Rightarrow> string \<Rightarrow> string \<Rightarrow> world \<Rightarrow> world \<times> exn option" where
  "query_tasks L E question m w =
     (case read_tasks L w of
        (w1, Inl e) \<Rightarrow> (w1, Some e)
      | (w1, Inr tasks) \<Rightarrow>
          if tasks = [] then (print ''No tasks found in the log.'' w1, None)
          else
            (let w2 = print (''Querying tasks using Ollama model '' @ [SQUOTE] @ m @ [SQUOTE]
                             @ ''...'') w1;
                 w3 = print (''Question: '' @ question @ [LF]) w2
             in case query_tasks_with_ollama L E question tasks m w3 of
                  (w4, Inl e) \<Rightarrow> (w4, Some e)
                | (w4, Inr response) \<Rightarrow>
                    (print_value response (print ([LF] @ ''Ollama Response:'') w4), None)))"

text \<open>
  \<^verbatim>\<open>main\<close>, from the result of \<^verbatim>\<open>parse_args\<close> on: a command line that \<^verbatim>\<open>argparse\<close>
  rejects ends the process with status 2 before anything else happens.
\<close>

fun main :: "'h pylib \<Rightarrow> env \<Rightarrow> 'h invocation \<Rightarrow> world \<Rightarrow> world \<times> outcome" where
  "main L E ArgumentError w = (w, SysExit 2)"
| "main L E (Parsed NoCommand) w = (w\<lparr>stdout := stdout w @ [Help]\<rparr>, SysExit 1)"
| "main L E (Parsed (Add task date hours)) w =
     (case validate_args L (Add task date hours) w of
        (w1, False) \<Rightarrow> (w1, SysExit 1)
      | (w1, True) \<Rightarrow> (add_task L E task date hours w1, Returned))"
| "main L E (Parsed (Query question m)) w =
     (case validate_args L (Query question m) w of
        (w1, False) \<Rightarrow> (w1, SysExit 1)
      | (w1, True) \<Rightarrow>
          (case query_tasks L E question m w1 of
             (w2, None) \<Rightarrow> (w2, Returned)
           | (w2, Some e) \<Rightarrow> (w2, Uncaught e)))"

subsection \<open>A concrete library for examples\<close>

text \<open>
  \<^verbatim>\<open>date.fromisoformat\<close> as Python 3.7 introduced it: exactly \<^verbatim>\<open>YYYY-MM-DD\<close>, a year
  from 1 to 9999, a month and a day of that month. (Python 3.11 accepts further ISO
  8601 forms; the functions above take the check as a parameter.)
\<close>

definition is_digit :: "char \<Rightarrow> bool" where
  "is_digit c = (c \<in> set ''0123456789'')"

definition nat_of_digits :: "string \<Rightarrow> nat" where
  "nat_of_digits s = fold (\<lambda>c n. 10 * n + (of_char c - 48)) s 0"

definition days_in_month :: "nat \<Rightarrow> nat \<Rightarrow> nat" where
  "days_in_month y m =
     (if m = 2 then (if y mod 4 = 0 \<and> (y mod 400 = 0 \<or> y mod 100 \<noteq> 0) then 29 else 28)
      else if m = 4 \<or> m = 6 \<or> m = 9 \<or> m = 11 then 30 else 31)"

definition fromisoformat_ymd :: "string \<Rightarrow> bool" where
  "fromisoformat_ymd s =
     (length s = 10 \<and> s ! 4 = CHR ''-'' \<and> s ! 7 = CHR ''-''
      \<and> list_all is_digit (take 4 s @ take 2 (drop 5 s) @ drop 8 s)
      \<and> (let y = nat_of_digits (take 4 s);
              m = nat_of_digits (take 2 (drop 5 s));
              d = nat_of_digits (drop 8 s)
          in 1 \<le> y \<and> 1 \<le> m \<and> m \<le> 12 \<and> 1 \<le> d \<and> d \<le> days_in_month y m))"

text \<open>
  A fragment of Python's floats: the numbers with one decimal digit, held as a number
  of tenths. \<open>tenths_of\<close> reads \<^verbatim>\<open>3\<close>, \<^verbatim>\<open>3.5\<close> or \<^verbatim>\<open>-0.5\<close> and \<open>tenths_str\<close> prints
  \<^verbatim>\<open>3.0\<close>, \<^verbatim>\<open>3.5\<close> and \<^verbatim>\<open>-0.5\<close>, as \<^verbatim>\<open>float\<close> and \<^verbatim>\<open>str\<close> do on these numbers. The
  examples use it on such numerals and on strings that are no numbers at all.
\<close>

definition unsigned_tenths_of :: "string \<Rightarrow> nat option" where
  "unsigned_tenths_of s =
     (let ip = takeWhile is_digit s; rest = dropWhile is_digit s
      in if ip = [] then None
         else (case rest of
                 [] \<Rightarrow> Some (10 * nat_of_digits ip)
               | [p, d] \<Rightarrow>
                   if p = CHR ''.'' \<and> is_digit d
                   then Some (10 * nat_of_digits ip + nat_of_digits [d]) else None
               | _ \<Rightarrow> None))"

definition tenths_of :: "string \<Rightarrow> int option" where
  "tenths_of s =
     (case s of
        [] \<Rightarrow> None
      | c # cs \<Rightarrow>
          if c = CHR ''-'' then map_option (\<lambda>n. - int n) (unsigned_tenths_of cs)
          else map_option int (unsigned_tenths_of s))"

definition tenths_str :: "int \<Rightarrow> string" where
  "tenths_str t =
     (if t < 0 then ''-'' else [])
     @ str_nat (nat \<bar>t\<bar> div 10) @ ''.'' @ str_nat (nat \<bar>t\<bar> mod 10)"

definition example_lib :: "int pylib" where
  "example_lib =
     \<lparr>float_of = tenths_of, float_str = tenths_str, float_neg = (\<lambda>h. h < 0),
      fromisoformat = fromisoformat_ymd\<rparr>"



definition example_now :: datetime where
  "example_now =
     \<lparr>year = 2024, month = 1, day = 15, hour = 9, minute = 30, second = 0,
      microsecond = 0\<rparr>"

text \<open>An environment whose service answers every request in the same way.\<close>

definition example_env :: "(exn + response) \<Rightarrow> env" where
  "example_env answer = \<lparr>now = example_now, post = (\<lambda>url pl. answer)\<rparr>"

definition empty_world :: world where
  "empty_world = \<lparr>csv_file = None, stdout = [], posts = []\<rparr>"

subsection \<open>Task records\<close>

text \<open>
  A task record of the specification (creation timestamp, task date, description,
  hours) as the dictionary \<^verbatim>\<open>read_tasks\<close> returns for it, and the line that stands for
  it in the prompt.
\<close>

definition task_record :: "string \<Rightarrow> string \<Rightarrow> string \<Rightarrow> 'h \<Rightarrow> 'h pyval dict" where
  "task_record ts d t h =
     [(''timestamp'', PStr ts), (''date'', PStr d), (''task'', PStr t), (''hours'', PFloat h)]"

definition enumeration_line :: "'h pylib \<Rightarrow> nat \<Rightarrow> string \<Rightarrow> 'h \<Rightarrow> string \<Rightarrow> string" where
  "enumeration_line L i d h t =
     str_nat i @ ''. Date: '' @ d @ '', Hours: '' @ float_str L h @ '', Task: '' @ t @ [LF]"

subsection \<open>Predicates used in the statements\<close>

text \<open>
  An answer of the service that \<^verbatim>\<open>query_tasks_with_ollama\<close> turns into a return
  value: an exception that one of the three handlers matches, an HTTP error status, a
  body that fails to decode with such an exception, or a body that decodes to an
  object.
\<close>

definition answer_handled :: "exn + response \<Rightarrow> bool" where
  "answer_handled a =
     (case a of
        Inl e \<Rightarrow> is_RequestException e \<or> is_JSONDecodeError e
      | Inr r \<Rightarrow>
          (case raise_for_status OLLAMA_API_URL r of
             Some e \<Rightarrow> True
           | None \<Rightarrow>
               (case json_body r of
                  Inl e \<Rightarrow> is_RequestException e \<or> is_JSONDecodeError e
                | Inr j \<Rightarrow> (case j of JObj kvs \<Rightarrow> True | _ \<Rightarrow> False))))"

text \<open>
  The failure taxonomy of the specification: the text the client returns for a
  connection failure, for any other failure of the transport (with its cause), and
  for a response that cannot be decoded.
\<close>

definition failure_message :: "exn \<Rightarrow> string" where
  "failure_message e =
     (if is_ConnectionError e then
        ''Error: Could not connect to Ollama. Make sure Ollama is running (ollama serve).''
      else if is_RequestException e then ''Error communicating with Ollama: '' @ exn_str e
      else ''Error: Received invalid response from Ollama.'')"

text \<open>
  What a query prints last for a handled answer of the service: the message of the
  failure, the field \<^verbatim>\<open>response\<close> of the decoded object, or the placeholder when the
  object has no such field. (A body that is not an object is not a handled answer.)
\<close>

definition printed_answer :: "exn + response \<Rightarrow> printed" where
  "printed_answer a =
     (case a of
        Inl e \<Rightarrow> Line (failure_message e)
      | Inr r \<Rightarrow>
          (case raise_for_status OLLAMA_API_URL r of
             Some e \<Rightarrow> Line (failure_message e)
           | None \<Rightarrow>
               (case json_body r of
                  Inl e \<Rightarrow> Line (failure_message e)
                | Inr j \<Rightarrow>
                    (case j of
                       JObj kvs \<Rightarrow>
                         (case map_of kvs ''response'' of
                            None \<Rightarrow> Line ''No response received from Ollama.''
                          | Some v \<Rightarrow> (case v of JStr s \<Rightarrow> Line s | _ \<Rightarrow> Obj v))
                     | _ \<Rightarrow> Obj j))))"

text \<open>A dictionary with the three keys the prompt reads.\<close>

definition has_prompt_keys :: "'v dict \<Rightarrow> bool" where
  "has_prompt_keys d =
     (map_of d ''date'' \<noteq> None \<and> map_of d ''hours'' \<noteq> None \<and> map_of d ''task'' \<noteq> None)"

text \<open>
  A row of the store that \<^verbatim>\<open>read_tasks\<close> can convert under the header of the script:
  it has a fourth field and \<^verbatim>\<open>float\<close> accepts it. \<open>row_error\<close> is the exception the
  conversion raises otherwise: \<^verbatim>\<open>ValueError\<close> from \<^verbatim>\<open>float\<close> of the string, or
  \<^verbatim>\<open>TypeError\<close> from \<^verbatim>\<open>float(None)\<close> when the row is too short to have the field.
\<close>

definition row_parses :: "'h pylib \<Rightarrow> string list \<Rightarrow> bool" where
  "row_parses L r = (4 \<le> length r \<and> float_of L (r ! 3) \<noteq> None)"

definition row_error :: "string list \<Rightarrow> exn" where
  "row_error r =
     (if 4 \<le> length r then ValueError (''could not convert string to float: '' @ r ! 3)
      else TypeError ''float() argument must be a string or a real number'')"

section \<open>Properties\<close>

subsection \<open>The reader reads back what the writer wrote\<close>

text \<open>
  The tokens of a file, one character at a time. Then the reader is followed through
  a written field (quoted or plain), through the delimiter and the line terminator,
  through a row and through a sequence of rows.
\<close>

lemma file_tokens_step:
  "file_tokens (c # d # ds) =
     Some c # (if c = LF \<or> (c = CR \<and> d \<noteq> LF) then [None] else []) @ file_tokens (d # ds)"
  by simp

lemma reader_quoted_content:
  "reader_rows (IN_QUOTED_FIELD, fs, f) (file_tokens (csv_double_quotes s @ DQUOTE # tail)) =
   reader_rows (IN_QUOTED_FIELD, fs, f @ s) (file_tokens (DQUOTE # tail))"
proof (induction s arbitrary: f)
  case Nil
  show ?case by simp
next
  case (Cons c s)
  let ?rest = "csv_double_quotes s @ DQUOTE # tail"
  obtain d ds where rest: "?rest = d # ds" by (cases "?rest") auto
  have step: "reader_rows (IN_QUOTED_FIELD, fs, f) (file_tokens (csv_double_quotes [c] @ ?rest)) =
     reader_rows (IN_QUOTED_FIELD, fs, f @ [c]) (file_tokens ?rest)"
    unfolding rest by simp
  have "csv_double_quotes (c # s) @ DQUOTE # tail = csv_double_quotes [c] @ ?rest" by simp
  then show ?case using step Cons.IH[of "f @ [c]"] by simp
qed

lemma reader_plain_content:
  assumes "\<not> csv_needs_quotes s" and "tail \<noteq> []"
  shows "reader_rows (IN_FIELD, fs, f) (file_tokens (s @ tail)) =
         reader_rows (IN_FIELD, fs, f @ s) (file_tokens tail)"
  using assms
proof (induction s arbitrary: f)
  case Nil
  show ?case by simp
next
  case (Cons c s)
  from Cons.prems have c: "c \<noteq> COMMA" "c \<noteq> DQUOTE" "c \<noteq> CR" "c \<noteq> LF"
    and s: "\<not> csv_needs_quotes s"
    by (auto simp add: csv_needs_quotes_def)
  obtain d ds where rest: "s @ tail = d # ds" using Cons.prems(2) by (cases "s @ tail") auto
  have "reader_rows (IN_FIELD, fs, f) (file_tokens (c # s @ tail)) =
        reader_rows (IN_FIELD, fs, f @ [c]) (file_tokens (s @ tail))"
    unfolding rest using c by simp
  then show ?case using Cons.IH[OF s Cons.prems(2), of "f @ [c]"] by simp
qed

lemma reader_field:
  assumes "st = START_RECORD \<or> st = START_FIELD" and "tail \<noteq> []"
  shows "reader_rows (st, fs, []) (file_tokens (csv_field s @ tail)) =
         reader_rows (if csv_needs_quotes s then QUOTE_IN_QUOTED_FIELD
                      else if s = [] then st else IN_FIELD, fs, s) (file_tokens tail)"
proof (cases "csv_needs_quotes s")
  case True
  obtain d ds where tail: "tail = d # ds" using assms(2) by (cases tail) auto
  have "reader_rows (st, fs, []) (file_tokens (DQUOTE # csv_double_quotes s @ DQUOTE # tail)) =
        reader_rows (IN_QUOTED_FIELD, fs, []) (file_tokens (csv_double_quotes s @ DQUOTE # tail))"
    using assms(1) by (auto simp add: parse_start_field_def)
  also have "\<dots> = reader_rows (IN_QUOTED_FIELD, fs, s) (file_tokens (DQUOTE # tail))"
    using reader_quoted_content[of fs "[]" s tail] by simp
  also have "\<dots> = reader_rows (QUOTE_IN_QUOTED_FIELD, fs, s) (file_tokens tail)"
    unfolding tail by simp
  finally show ?thesis using True by (simp add: csv_field_def)
next
  case False
  show ?thesis
  proof (cases s)
    case Nil
    then show ?thesis using False by (simp add: csv_field_def)
  next
    case (Cons c s')
    from False Cons have c: "c \<noteq> COMMA" "c \<noteq> DQUOTE" "c \<noteq> CR" "c \<noteq> LF"
      and s': "\<not> csv_needs_quotes s'"
      by (auto simp add: csv_needs_quotes_def)
    obtain d ds where rest: "s' @ tail = d # ds" using assms(2) by (cases "s' @ tail") auto
    have "reader_rows (st, fs, []) (file_tokens (c # s' @ tail)) =
          reader_rows (IN_FIELD, fs, [c]) (file_tokens (s' @ tail))"
      unfolding rest using c assms(1) by (auto simp add: parse_start_field_def)
    then show ?thesis
      using reader_plain_content[OF s' assms(2), of fs "[c]"] False Cons
      by (simp add: csv_field_def)
  qed
qed

lemma reader_comma:
  assumes "st \<noteq> IN_QUOTED_FIELD" "st \<noteq> EAT_CRNL" and "rest \<noteq> []"
  shows "reader_rows (st, fs, f) (file_tokens (COMMA # rest)) =
         reader_rows (START_FIELD, fs @ [f], []) (file_tokens rest)"
proof -
  obtain d ds where rest: "rest = d # ds" using assms(3) by (cases rest) auto
  show ?thesis unfolding rest using assms(1,2)
    by (cases st) (simp_all add: parse_start_field_def)
qed

lemma reader_line_end:
  assumes "st = START_FIELD \<or> st = IN_FIELD \<or> st = QUOTE_IN_QUOTED_FIELD"
  shows "reader_rows (st, fs, f) (file_tokens (CR # LF # rest)) =
         (case reader_rows (START_RECORD, [], []) (file_tokens rest) of
            (rs, e) \<Rightarrow> ((fs @ [f]) # rs, e))"
  using assms by (auto simp add: parse_start_field_def)

lemma reader_fields:
  assumes "ss \<noteq> []" and "st = START_FIELD \<or> (st = START_RECORD \<and> ss \<noteq> [[]])"
  shows "reader_rows (st, fs, []) (file_tokens (csv_join (map csv_field ss) @ CR # LF # rest)) =
         (case reader_rows (START_RECORD, [], []) (file_tokens rest) of
            (rs, e) \<Rightarrow> ((fs @ ss) # rs, e))"
  using assms
proof (induction ss arbitrary: st fs rule: csv_join.induct)
  case 1
  then show ?case by simp
next
  case (2 s)
  have st: "st = START_RECORD \<or> st = START_FIELD" using "2.prems" by auto
  have "reader_rows (st, fs, []) (file_tokens (csv_field s @ CR # LF # rest)) =
        reader_rows (if csv_needs_quotes s then QUOTE_IN_QUOTED_FIELD
                     else if s = [] then st else IN_FIELD, fs, s) (file_tokens (CR # LF # rest))"
    using reader_field[OF st, of "CR # LF # rest" fs s] by simp
  also have "\<dots> = (case reader_rows (START_RECORD, [], []) (file_tokens rest) of
                      (rs, e) \<Rightarrow> ((fs @ [s]) # rs, e))"
    using "2.prems" by (intro reader_line_end) auto
  finally show ?case by simp
next
  case (3 s t ts)
  have st: "st = START_RECORD \<or> st = START_FIELD" using "3.prems" by auto
  let ?tail = "csv_join (map csv_field (t # ts)) @ CR # LF # rest"
  have "reader_rows (st, fs, []) (file_tokens (csv_field s @ COMMA # ?tail)) =
        reader_rows (if csv_needs_quotes s then QUOTE_IN_QUOTED_FIELD
                     else if s = [] then st else IN_FIELD, fs, s) (file_tokens (COMMA # ?tail))"
    using reader_field[OF st, of "COMMA # ?tail" fs s] by simp
  also have "\<dots> = reader_rows (START_FIELD, fs @ [s], []) (file_tokens ?tail)"
    using st by (intro reader_comma) auto
  also have "\<dots> = (case reader_rows (START_RECORD, [], []) (file_tokens rest) of
                      (rs, e) \<Rightarrow> (((fs @ [s]) @ (t # ts)) # rs, e))"
    by (intro "3.IH") auto
  finally show ?case by simp
qed

lemma reader_written_row:
  "reader_rows (START_RECORD, [], []) (file_tokens (csv_writerow r @ rest)) =
     (case reader_rows (START_RECORD, [], []) (file_tokens rest) of (rs, e) \<Rightarrow> (r # rs, e))"
proof -
  consider "r = []" | "r = [[]]" | "r \<noteq> []" "r \<noteq> [[]]" by blast
  then show ?thesis
  proof cases
    case 1
    then show ?thesis by (simp add: csv_writerow_def)
  next
    case 2
    then show ?thesis by (simp add: csv_writerow_def parse_start_field_def)
  next
    case 3
    then show ?thesis
      using reader_fields[of r START_RECORD "[]" rest] by (simp add: csv_writerow_def)
  qed
qed

lemma csv_reader_written_rows:
  "csv_reader (concat (map csv_writerow rows)) = (rows, None)"
  unfolding csv_reader_def
proof (induction rows)
  case Nil
  show ?case by simp
next
  case (Cons r rows)
  show ?case using reader_written_row[of r "concat (map csv_writerow rows)"] Cons.IH by simp
qed

lemma csv_reader_one_row: "csv_reader (csv_writerow r) = ([r], None)"
  using csv_reader_written_rows[of "[r]"] by simp

subsection \<open>The reader raises no error\<close>

text \<open>
  The state \<open>EAT_CRNL\<close> is left at the end of the line it was entered in, so the one
  error of the state machine cannot occur on the lines of a file.
\<close>

lemma snd_case_cons: "snd (case p of (rs, e) \<Rightarrow> (x # rs, e)) = snd p"
  by (cases p) simp

lemma reader_rows_no_error:
  assumes "st \<noteq> EAT_CRNL \<or> (\<exists>cs'. cs = LF # cs')"
  shows "snd (reader_rows (st, fs, f) (file_tokens cs)) = None"
  using assms
proof (induction cs arbitrary: st fs f)
  case Nil
  show ?case by simp
next
  case (Cons c cs)
  note IH = Cons.IH
  show ?case
  proof (cases cs)
    case Nil
    then show ?thesis using Cons.prems
      by (cases st) (auto simp add: parse_start_field_def)
  next
    case (Cons d ds)
    show ?thesis
      using Cons.prems IH unfolding Cons
      by (cases st) (auto simp add: parse_start_field_def snd_case_cons simp del: file_tokens.simps
          simp add: file_tokens_step)
  qed
qed

lemma csv_reader_no_error: "snd (csv_reader content) = None"
  unfolding csv_reader_def by (rule reader_rows_no_error) simp

subsection \<open>Reading the store\<close>

lemma csv_writerow_headers:
  "csv_writerow CSV_HEADERS = ''timestamp,date,task,hours'' @ [CR, LF]"
  by (simp add: csv_writerow_def CSV_HEADERS_def csv_field_def csv_needs_quotes_def)

lemma csv_reader_store:
  "csv_reader (csv_writerow CSV_HEADERS @ concat (map csv_writerow rows)) = (CSV_HEADERS # rows, None)"
  using csv_reader_written_rows[of "CSV_HEADERS # rows"] by simp

lemma read_tasks_existing:
  assumes "csv_file w = Some content"
  shows "read_tasks L w =
           (w, case fst (csv_reader content) of
                 [] \<Rightarrow> Inr []
               | fieldnames # rows \<Rightarrow> read_loop L fieldnames rows None [])"
proof -
  obtain rs where "csv_reader content = (rs, None)"
    using csv_reader_no_error[of content] by (cases "csv_reader content") auto
  then show ?thesis using assms
    by (simp add: read_tasks_def ensure_csv_exists_def split: list.splits)
qed

lemma read_tasks_empty_store:
  assumes "csv_file w = None \<or> csv_file w = Some (csv_writerow CSV_HEADERS)"
  shows "read_tasks L w = (w\<lparr>csv_file := Some (csv_writerow CSV_HEADERS)\<rparr>, Inr [])"
  using assms csv_reader_store[of "[]"]
  by (auto simp add: read_tasks_def ensure_csv_exists_def)

lemma read_tasks_store:
  assumes "csv_file w = Some (csv_writerow CSV_HEADERS @ concat (map csv_writerow rows))"
  shows "read_tasks L w = (w, read_loop L CSV_HEADERS rows None [])"
  using read_tasks_existing[OF assms, of L] by (simp add: csv_reader_store)

lemma dict_of_row_headers:
  assumes "4 \<le> length r"
  shows "dict_of_row CSV_HEADERS r =
           [(''timestamp'', PStr (r ! 0)), (''date'', PStr (r ! 1)), (''task'', PStr (r ! 2)),
            (''hours'', PStr (r ! 3))]"
proof -
  obtain a b c d rest where "r = a # b # c # d # rest"
    using assms by (cases r; cases "tl r"; cases "tl (tl r)"; cases "tl (tl (tl r))") auto
  then show ?thesis by (simp add: dict_of_row_def CSV_HEADERS_def)
qed

lemma convert_hours_row:
  assumes "4 \<le> length r"
  shows "convert_hours L (dict_of_row CSV_HEADERS r) =
           (case float_of L (r ! 3) of
              None \<Rightarrow> Inl (ValueError (''could not convert string to float: '' @ r ! 3))
            | Some h \<Rightarrow> Inr (task_record (r ! 0) (r ! 1) (r ! 2) h))"
  by (simp add: dict_of_row_headers[OF assms] convert_hours_def getitem_def task_record_def
      split: option.splits)

lemma convert_hours_short:
  assumes "length r < 4"
  shows "convert_hours L (dict_of_row CSV_HEADERS r) =
           Inl (TypeError ''float() argument must be a string or a real number'')"
proof -
  consider "r = []" | a where "r = [a]" | a b where "r = [a, b]" | a b c where "r = [a, b, c]"
    using assms by (cases r; cases "tl r"; cases "tl (tl r)"; cases "tl (tl (tl r))") auto
  then show ?thesis
    by cases (simp_all add: dict_of_row_def CSV_HEADERS_def convert_hours_def getitem_def)
qed

lemma convert_hours_headers:
  "convert_hours L (dict_of_row CSV_HEADERS r) =
     (if row_parses L r then Inr (task_record (r ! 0) (r ! 1) (r ! 2) (the (float_of L (r ! 3))))
      else Inl (row_error r))"
proof (cases "4 \<le> length r")
  case True
  then show ?thesis
    by (auto simp add: convert_hours_row row_parses_def row_error_def split: option.splits)
next
  case False
  then show ?thesis
    using convert_hours_short[of r L] by (simp add: row_parses_def row_error_def)
qed

lemma read_loop_append:
  "read_loop L names (rs @ rs') err acc =
     (case read_loop L names rs None acc of
        Inl e \<Rightarrow> Inl e
      | Inr acc' \<Rightarrow> read_loop L names rs' err acc')"
  by (induction rs arbitrary: acc) (auto split: sum.splits)

lemma read_loop_blank:
  assumes "list_all (\<lambda>r. r = []) rows"
  shows "read_loop L names rows None acc = Inr acc"
  using assms by (induction rows) auto

lemma read_loop_parseable:
  assumes "\<forall>r\<in>set rows. r = [] \<or> row_parses L r"
  shows "read_loop L CSV_HEADERS rows None acc =
           Inr (acc @ map (\<lambda>r. task_record (r ! 0) (r ! 1) (r ! 2) (the (float_of L (r ! 3))))
                         (filter (\<lambda>r. r \<noteq> []) rows))"
  using assms
  by (induction rows arbitrary: acc) (auto simp add: convert_hours_headers)

lemma read_loop_unparseable:
  assumes "\<exists>r\<in>set rows. r \<noteq> [] \<and> \<not> row_parses L r"
  shows "\<exists>r\<in>set rows. r \<noteq> [] \<and> \<not> row_parses L r \<and>
           read_loop L CSV_HEADERS rows err acc = Inl (row_error r)"
  using assms
proof (induction rows arbitrary: acc)
  case Nil
  then show ?case by simp
next
  case (Cons r rows)
  show ?case
  proof (cases "r \<noteq> [] \<and> \<not> row_parses L r")
    case True
    then show ?thesis by (simp add: convert_hours_headers)
  next
    case False
    then have "\<exists>r\<in>set rows. r \<noteq> [] \<and> \<not> row_parses L r" using Cons.prems by auto
    then show ?thesis using Cons.IH False
      by (auto simp add: convert_hours_headers)
  qed
qed

lemma read_tasks_no_rows:
  assumes "case csv_file w of
             None \<Rightarrow> True
           | Some content \<Rightarrow> list_all (\<lambda>r. r = []) (tl (fst (csv_reader content)))"
  shows "read_tasks L w = (ensure_csv_exists w, Inr [])"
proof (cases "csv_file w")
  case None
  then show ?thesis using read_tasks_empty_store[of w L] by (simp add: ensure_csv_exists_def)
next
  case (Some c)
  then have "list_all (\<lambda>r. r = []) (tl (fst (csv_reader c)))" using assms by simp
  then show ?thesis
    using read_tasks_existing[OF Some, of L] Some read_loop_blank[of _ L]
    by (cases "fst (csv_reader c)") (simp_all add: ensure_csv_exists_def)
qed

subsection \<open>Writing the store\<close>

lemma isoformat_nonempty: "isoformat t \<noteq> []"
  by (simp add: isoformat_def)

lemma add_task_store:
  assumes "csv_file w = None \<or>
           csv_file w = Some (csv_writerow CSV_HEADERS @ concat (map csv_writerow rows))"
  shows "csv_file (add_task L E task date hours w) =
           Some (csv_writerow CSV_HEADERS
                 @ concat (map csv_writerow
                     ((if csv_file w = None then [] else rows)
                      @ [[isoformat (now E), date, task, float_str L hours]])))"
  using assms
  by (auto simp add: add_task_def ensure_csv_exists_def append_file_def print_def Let_def)

lemma query_tasks_file:
  "csv_file (fst (query_tasks L E question m w)) = csv_file (ensure_csv_exists w)"
  by (auto simp add: query_tasks_def read_tasks_def query_tasks_with_ollama_def print_def
      print_value_def Let_def split: sum.splits prod.splits option.splits list.splits)

text \<open>
  Every command keeps the store in the shape the script gives it: no file, or the
  header row followed by rows written by \<^verbatim>\<open>csv.writer\<close>.
\<close>

lemma main_keeps_store:
  assumes "csv_file w = None \<or>
           (\<exists>rows. csv_file w = Some (csv_writerow CSV_HEADERS @ concat (map csv_writerow rows)))"
  shows "csv_file (fst (main L E cmd w)) = None \<or>
         (\<exists>rows. csv_file (fst (main L E cmd w)) =
                   Some (csv_writerow CSV_HEADERS @ concat (map csv_writerow rows)))"
proof (cases cmd)
  case ArgumentError
  then show ?thesis using assms by simp
next
  case (Parsed a)
  show ?thesis
  proof (cases a)
    case NoCommand
    then show ?thesis using assms Parsed by simp
  next
    case (Add task date hours)
    show ?thesis
    proof (cases "snd (validate_args L (Add task date hours) w)")
      case False
      then show ?thesis using assms Parsed Add
        by (auto simp add: print_def split: if_splits)
    next
      case True
      then have m: "main L E cmd w = (add_task L E task date hours w, Returned)"
        using Parsed Add by (auto split: if_splits)
      from assms obtain rows where
        "csv_file w = None \<or>
         csv_file w = Some (csv_writerow CSV_HEADERS @ concat (map csv_writerow rows))"
        by blast
      from add_task_store[OF this, of L E task date hours] show ?thesis
        unfolding m fst_conv by (intro disjI2 exI)
    qed
  next
    case (Query question m)
    have "csv_file (fst (main L E cmd w)) = csv_file (ensure_csv_exists w)"
      using Parsed Query query_tasks_file[of L E question m w]
      by (cases "query_tasks L E question m w") (auto split: option.splits)
    then have f: "csv_file (fst (main L E cmd w)) =
                    (if csv_file w = None then Some (csv_writerow CSV_HEADERS) else csv_file w)"
      by (simp add: ensure_csv_exists_def)
    show ?thesis
    proof (cases "csv_file w = None")
      case True
      then have "csv_file (fst (main L E cmd w)) =
                   Some (csv_writerow CSV_HEADERS @ concat (map csv_writerow []))"
        using f by simp
      then show ?thesis by (intro disjI2 exI)
    next
      case False
      then have "csv_file (fst (main L E cmd w)) = csv_file w" using f by simp
      then show ?thesis using assms False by metis
    qed
  qed
qed

subsection \<open>The example library\<close>

lemma example_dates:
  "fromisoformat example_lib ''2024-01-15''" "fromisoformat example_lib ''2024-01-16''"
  "\<not> fromisoformat example_lib ''2024-02-30''"
  by (simp_all add: example_lib_def fromisoformat_ymd_def is_digit_def nat_of_digits_def
      days_in_month_def)

lemma example_floats:
  "float_of example_lib ''3.5'' = Some 35" "float_of example_lib ''2.0'' = Some 20"
  "float_of example_lib ''abc'' = None"
  "float_str example_lib 35 = ''3.5''" "float_str example_lib 20 = ''2.0''"
  "\<not> float_neg example_lib 35" "\<not> float_neg example_lib 20" "float_neg example_lib (-10)"
  by (simp_all add: example_lib_def tenths_of_def unsigned_tenths_of_def is_digit_def
      nat_of_digits_def tenths_str_def)

lemma example_timestamp: "isoformat (now (example_env a)) = ''2024-01-15T09:30:00''"
  by (simp add: example_env_def example_now_def isoformat_def zero_pad_def)

subsection \<open>Validation\<close>

text \<open>
  Claim C10. For a command other than \<^verbatim>\<open>add\<close> (no command, or \<^verbatim>\<open>query\<close> with any
  question and any model name) \<^verbatim>\<open>validate_args\<close> checks nothing: it returns \<open>True\<close>
  and prints nothing, so a query never fails validation.
\<close>

theorem validate_args_other_commands:
  "validate_args L NoCommand w = (w, True)
   \<and> validate_args L (Query question m) w = (w, True)"
  by simp




subsection \<open>Reading a store that does not exist\<close>

text \<open>
  Claim C7. When the store file does not exist, \<^verbatim>\<open>read_tasks\<close> returns the empty
  list and leaves a file that holds the header row \<^verbatim>\<open>timestamp,date,task,hours\<close>, ended
  by CR LF, and nothing else.
\<close>

theorem read_tasks_absent:
  "read_tasks L (w\<lparr>csv_file := None\<rparr>) =
     (w\<lparr>csv_file := Some (''timestamp,date,task,hours'' @ [CR, LF])\<rparr>, Inr [])"
  using read_tasks_empty_store[of "w\<lparr>csv_file := None\<rparr>" L]
  by (simp add: csv_writerow_headers)

subsection \<open>Rows that cannot be converted\<close>

text \<open>
  Claim C8. On a store whose first row is the header: if some row (blank rows aside)
  has an hours field that \<^verbatim>\<open>float\<close> rejects, or no hours field, \<^verbatim>\<open>read_tasks\<close>
  returns no list but the exception of such a row, and the file is as before; if
  every row converts, \<^verbatim>\<open>read_tasks\<close> returns one record for each row, in the order
  of the file, with the hours as a float.
\<close>

theorem read_tasks_hours:
  assumes "csv_file w = Some content"
    and "fst (csv_reader content) = CSV_HEADERS # rows"
  shows "((\<exists>r\<in>set rows. r \<noteq> [] \<and> \<not> row_parses L r) \<longrightarrow>
            (\<exists>r\<in>set rows. r \<noteq> [] \<and> \<not> row_parses L r \<and>
               read_tasks L w = (w, Inl (row_error r))))
       \<and> ((\<forall>r\<in>set rows. r = [] \<or> row_parses L r) \<longrightarrow>
            read_tasks L w =
              (w, Inr (map (\<lambda>r. task_record (r ! 0) (r ! 1) (r ! 2) (the (float_of L (r ! 3))))
                          (filter (\<lambda>r. r \<noteq> []) rows))))"
proof -
  have rt: "read_tasks L w = (w, read_loop L CSV_HEADERS rows None [])"
    using read_tasks_existing[OF assms(1), of L] assms(2) by simp
  show ?thesis
    using read_loop_unparseable[of rows L None "[]"] read_loop_parseable[of rows L "[]"] rt
    by auto
qed

theorem read_tasks_hours_witness:
  "read_tasks example_lib
     (empty_world\<lparr>csv_file := Some (csv_writerow CSV_HEADERS
        @ csv_writerow [''2024-01-15T09:30:00'', ''2024-01-15'', ''Write report'', ''3.5'']
        @ csv_writerow [''2024-01-16T10:00:00'', ''2024-01-16'', ''Review, merge'', ''abc''])\<rparr>)
   = (empty_world\<lparr>csv_file := Some (csv_writerow CSV_HEADERS
        @ csv_writerow [''2024-01-15T09:30:00'', ''2024-01-15'', ''Write report'', ''3.5'']
        @ csv_writerow [''2024-01-16T10:00:00'', ''2024-01-16'', ''Review, merge'', ''abc''])\<rparr>,
      Inl (ValueError ''could not convert string to float: abc''))
   \<and> read_tasks example_lib
     (empty_world\<lparr>csv_file := Some (csv_writerow CSV_HEADERS
        @ csv_writerow [''2024-01-15T09:30:00'', ''2024-01-15'', ''Write report'', ''3.5'']
        @ csv_writerow [''2024-01-16T10:00:00'', ''2024-01-16'', ''Review, merge'', ''2.0''])\<rparr>)
   = (empty_world\<lparr>csv_file := Some (csv_writerow CSV_HEADERS
        @ csv_writerow [''2024-01-15T09:30:00'', ''2024-01-15'', ''Write report'', ''3.5'']
        @ csv_writerow [''2024-01-16T10:00:00'', ''2024-01-16'', ''Review, merge'', ''2.0''])\<rparr>,
      Inr [task_record ''2024-01-15T09:30:00'' ''2024-01-15'' ''Write report'' 35,
           task_record ''2024-01-16T10:00:00'' ''2024-01-16'' ''Review, merge'' 20])"
proof -
  let ?r1 = "[''2024-01-15T09:30:00'', ''2024-01-15'', ''Write report'', ''3.5'']"
  let ?bad = "[''2024-01-16T10:00:00'', ''2024-01-16'', ''Review, merge'', ''abc'']"
  let ?r2 = "[''2024-01-16T10:00:00'', ''2024-01-16'', ''Review, merge'', ''2.0'']"
  let ?c = "\<lambda>rows. csv_writerow CSV_HEADERS @ concat (map csv_writerow rows)"
  have a: "fst (csv_reader (?c [?r1, ?bad])) = CSV_HEADERS # [?r1, ?bad]"
    and b: "fst (csv_reader (?c [?r1, ?r2])) = CSV_HEADERS # [?r1, ?r2]"
    by (simp_all only: csv_reader_store fst_conv)
  have "read_tasks example_lib (empty_world\<lparr>csv_file := Some (?c [?r1, ?bad])\<rparr>)
          = (empty_world\<lparr>csv_file := Some (?c [?r1, ?bad])\<rparr>,
             Inl (ValueError ''could not convert string to float: abc''))"
    using read_tasks_hours[of "empty_world\<lparr>csv_file := Some (?c [?r1, ?bad])\<rparr>" "?c [?r1, ?bad]"
        "[?r1, ?bad]" example_lib] a
    by (simp add: example_floats row_parses_def row_error_def)
  moreover have "read_tasks example_lib (empty_world\<lparr>csv_file := Some (?c [?r1, ?r2])\<rparr>)
          = (empty_world\<lparr>csv_file := Some (?c [?r1, ?r2])\<rparr>,
             Inr [task_record ''2024-01-15T09:30:00'' ''2024-01-15'' ''Write report'' 35,
                  task_record ''2024-01-16T10:00:00'' ''2024-01-16'' ''Review, merge'' 20])"
    using read_tasks_hours[of "empty_world\<lparr>csv_file := Some (?c [?r1, ?r2])\<rparr>" "?c [?r1, ?r2]"
        "[?r1, ?r2]" example_lib] b
    by (simp add: example_floats row_parses_def)
  ultimately show ?thesis
    by simp
qed

subsection \<open>Adding a task and reading it back\<close>

text \<open>
  Claim C4, as stated for every store, fails on a file that exists and is empty:
  \<^verbatim>\<open>ensure_csv_exists\<close> writes the header only when there is no file, so the row
  added is the first line of the file, \<^verbatim>\<open>DictReader\<close> takes it for the field names,
  and \<^verbatim>\<open>read_tasks\<close> returns no record.
\<close>

theorem add_to_file_without_header:
  "snd (main example_lib (example_env (Inl (ConnectionError [])))
          (Parsed (Add ''Write report'' ''2024-01-15'' 35)) (empty_world\<lparr>csv_file := Some []\<rparr>))
     = Returned
   \<and> snd (read_tasks example_lib
            (fst (main example_lib (example_env (Inl (ConnectionError [])))
                    (Parsed (Add ''Write report'' ''2024-01-15'' 35))
                    (empty_world\<lparr>csv_file := Some []\<rparr>))))
     = Inr []"
proof -
  let ?E = "example_env (Inl (ConnectionError []))"
  let ?w = "empty_world\<lparr>csv_file := Some []\<rparr>"
  let ?w' = "add_task example_lib ?E ''Write report'' ''2024-01-15'' 35 ?w"
  have m: "main example_lib ?E (Parsed (Add ''Write report'' ''2024-01-15'' 35)) ?w = (?w', Returned)"
    by (simp add: example_dates example_floats)
  have f: "csv_file ?w' =
             Some (csv_writerow [''2024-01-15T09:30:00'', ''2024-01-15'', ''Write report'', ''3.5''])"
    by (simp add: add_task_def ensure_csv_exists_def append_file_def print_def Let_def
        example_timestamp example_floats empty_world_def)
  have "snd (read_tasks example_lib ?w') = Inr []"
    using read_tasks_existing[OF f, of example_lib] by (simp add: csv_reader_one_row)
  then show ?thesis using m by simp
qed

text \<open>
  Claim C4, amended. Let the store be absent, or hold the header row followed by rows
  written by \<^verbatim>\<open>csv.writer\<close>, and let \<^verbatim>\<open>read_tasks\<close> read it as \<open>old\<close>. For a
  date \<^verbatim>\<open>fromisoformat\<close> accepts and hours that are not negative and that \<^verbatim>\<open>float\<close>
  reads back from their \<^verbatim>\<open>str\<close>, \<^verbatim>\<open>add\<close> returns normally, and \<^verbatim>\<open>read_tasks\<close> then
  yields \<open>old\<close> followed by one record with that date, description and hours and
  with the ISO text of the clock as its timestamp, which is not empty.
\<close>

theorem add_then_read_tasks:
  assumes "fromisoformat L date" and "\<not> float_neg L hours"
    and "float_of L (float_str L hours) = Some hours"
    and "csv_file w = None \<or>
         csv_file w = Some (csv_writerow CSV_HEADERS @ concat (map csv_writerow rows))"
    and "snd (read_tasks L w) = Inr old"
  shows "snd (main L E (Parsed (Add task date hours)) w) = Returned
       \<and> snd (read_tasks L (fst (main L E (Parsed (Add task date hours)) w))) =
           Inr (old @ [task_record (isoformat (now E)) date task hours])
       \<and> isoformat (now E) \<noteq> []"
proof -
  let ?new = "[isoformat (now E), date, task, float_str L hours]"
  let ?rows = "if csv_file w = None then [] else rows"
  let ?w' = "add_task L E task date hours w"
  have m: "main L E (Parsed (Add task date hours)) w = (?w', Returned)"
    using assms(1,2) by simp
  have before: "read_loop L CSV_HEADERS ?rows None [] = Inr old"
  proof (cases "csv_file w")
    case None
    then show ?thesis using assms(5) read_tasks_empty_store[of w L] by simp
  next
    case (Some c)
    then show ?thesis using assms(4,5) read_tasks_store[of w rows L] by simp
  qed
  have new: "read_loop L CSV_HEADERS [?new] None old =
               Inr (old @ [task_record (isoformat (now E)) date task hours])"
    using assms(3) convert_hours_row[of ?new L] by simp
  have "read_tasks L ?w' = (?w', read_loop L CSV_HEADERS (?rows @ [?new]) None [])"
    by (rule read_tasks_store) (rule add_task_store[OF assms(4)])
  then have "snd (read_tasks L ?w') = Inr (old @ [task_record (isoformat (now E)) date task hours])"
    using before new by (simp add: read_loop_append)
  then show ?thesis using m by (simp add: isoformat_nonempty)
qed

theorem add_then_read_tasks_witness:
  "snd (read_tasks example_lib
          (fst (main example_lib (example_env (Inl (ConnectionError [])))
                  (Parsed (Add ''Review, merge'' ''2024-01-16'' 20))
                  (empty_world\<lparr>csv_file := Some (csv_writerow CSV_HEADERS
                      @ csv_writerow [''2024-01-14T08:00:00'', ''2024-01-14'', ''Write report'', ''3.5''])\<rparr>))))
   = Inr [task_record ''2024-01-14T08:00:00'' ''2024-01-14'' ''Write report'' 35,
          task_record ''2024-01-15T09:30:00'' ''2024-01-16'' ''Review, merge'' 20]"
proof -
  let ?E = "example_env (Inl (ConnectionError []))"
  let ?r = "[''2024-01-14T08:00:00'', ''2024-01-14'', ''Write report'', ''3.5'']"
  let ?w = "empty_world\<lparr>csv_file := Some (csv_writerow CSV_HEADERS @ concat (map csv_writerow [?r]))\<rparr>"
  have store: "csv_file ?w = None \<or>
      csv_file ?w = Some (csv_writerow CSV_HEADERS @ concat (map csv_writerow [?r]))"
    by simp
  have old: "snd (read_tasks example_lib ?w) =
               Inr [task_record ''2024-01-14T08:00:00'' ''2024-01-14'' ''Write report'' 35]"
    using read_tasks_store[of ?w "[?r]" example_lib] convert_hours_row[of ?r example_lib]
    by (simp add: example_floats)
  have rt: "float_of example_lib (float_str example_lib 20) = Some 20"
    by (simp add: example_floats)
  show ?thesis
    using add_then_read_tasks[OF example_dates(2) example_floats(7) rt store old,
        of ?E "''Review, merge''"]
    by (simp add: example_timestamp)
qed

subsection \<open>The prompt\<close>

lemma task_line_record:
  "task_line L i (task_record ts d t h) = Inr (enumeration_line L i d h t)"
  by (simp add: task_line_def task_record_def getitem_def enumeration_line_def)

lemma format_tasks_records:
  "format_tasks L i (map (\<lambda>(ts, d, t, h). task_record ts d t h) recs) acc =
     Inr (acc @ concat (map (\<lambda>(n, ts, d, t, h). enumeration_line L n d h t)
                            (enumerate i recs)))"
proof (induction recs arbitrary: i acc)
  case Nil
  show ?case by simp
next
  case (Cons r recs)
  obtain ts d t h where r: "r = (ts, d, t, h)" by (cases r) auto
  show ?case by (simp add: r task_line_record Cons.IH)
qed

text \<open>
  Claim C5. For every sequence of records and every question, the prompt is one text:
  the fixed preamble (the instruction to answer from the task data, then the heading
  \<^verbatim>\<open>Task data:\<close>), then one line for each record, numbered from 1 in the order of
  the sequence and showing date, hours and description in full, then the question
  after \<^verbatim>\<open>Question: \<close>, then the fixed closing instruction to answer from the task
  data only. The two fixed texts are spelled out.
\<close>

theorem prompt_layout:
  "build_prompt L question (map (\<lambda>(ts, d, t, h). task_record ts d t h) recs) =
     Inr ([LF] @ ''You are a helpful assistant analyzing task log data. Please answer the following question based on the task data provided.''
          @ [LF, LF] @ ''Task data:'' @ [LF]
          @ concat (map (\<lambda>(n, ts, d, t, h).
                           str_nat n @ ''. Date: '' @ d @ '', Hours: '' @ float_str L h
                           @ '', Task: '' @ t @ [LF])
                        (enumerate 1 recs))
          @ [LF, LF] @ ''Question: '' @ question
          @ [LF, LF] @ ''Please provide a clear and concise answer based only on the task data provided.''
          @ [LF])"
  by (simp add: build_prompt_def format_tasks_records prompt_preamble_def prompt_closing_def
      enumeration_line_def)

text \<open>
  Claim C9. The prompt depends on the records and the question only: two calls of
  \<^verbatim>\<open>query_tasks_with_ollama\<close> with the same records and question send the same
  prompts, whatever the model names, the worlds they start from, the answers of the
  service and the clock.
\<close>

theorem prompt_deterministic:
  "map (prompt \<circ> snd)
       (drop (length (posts w1))
          (posts (fst (query_tasks_with_ollama L E1 question tasks m1 w1))))
   = map (prompt \<circ> snd)
       (drop (length (posts w2))
          (posts (fst (query_tasks_with_ollama L E2 question tasks m2 w2))))"
  by (cases "build_prompt L question tasks")
     (simp_all add: query_tasks_with_ollama_def Let_def)

subsection \<open>Querying an empty store\<close>

lemma query_tasks_no_tasks:
  assumes "snd (read_tasks L w) = Inr []"
  shows "query_tasks L E question m w =
           (print ''No tasks found in the log.'' (fst (read_tasks L w)), None)"
  using assms by (cases "read_tasks L w") (simp add: query_tasks_def)

text \<open>
  Claim C6. On a store with no record (no file, or a file in which the reader finds
  nothing but blank rows after the first row) \<^verbatim>\<open>query_tasks\<close> prints
  \<^verbatim>\<open>No tasks found in the log.\<close> and returns; no request is sent, and the result does
  not depend on the service.
\<close>

theorem query_empty_store:
  assumes "case csv_file w of
             None \<Rightarrow> True
           | Some content \<Rightarrow> list_all (\<lambda>r. r = []) (tl (fst (csv_reader content)))"
  shows "query_tasks L E question m w =
           ((ensure_csv_exists w)\<lparr>stdout := stdout w @ [Line ''No tasks found in the log.'']\<rparr>,
            None)
         \<and> posts (fst (query_tasks L E question m w)) = posts w"
  using query_tasks_no_tasks[of L w E question m] read_tasks_no_rows[OF assms, of L]
  by (simp add: print_def ensure_csv_exists_def)

theorem query_empty_store_witness:
  "query_tasks example_lib (example_env (Inl (ConnectionError [])))
        ''How many hours?'' ''llama3'' empty_world
      = (\<lparr>csv_file = Some (''timestamp,date,task,hours'' @ [CR, LF]),
          stdout = [Line ''No tasks found in the log.''], posts = []\<rparr>, None)
   \<and> query_tasks example_lib (example_env (Inl (ConnectionError [])))
        ''How many hours?'' ''llama3''
        (empty_world\<lparr>csv_file := Some (''timestamp,date,task,hours'' @ [CR, LF])\<rparr>)
      = (\<lparr>csv_file = Some (''timestamp,date,task,hours'' @ [CR, LF]),
          stdout = [Line ''No tasks found in the log.''], posts = []\<rparr>, None)"
proof -
  let ?E = "example_env (Inl (ConnectionError []))"
  let ?w = "empty_world\<lparr>csv_file := Some (csv_writerow CSV_HEADERS)\<rparr>"
  have "fst (csv_reader (csv_writerow CSV_HEADERS)) = [CSV_HEADERS]"
    using csv_reader_store[of "[]"] by simp
  then have h: "case csv_file ?w of None \<Rightarrow> True
           | Some content \<Rightarrow> list_all (\<lambda>r. r = []) (tl (fst (csv_reader content)))"
    by simp
  show ?thesis
    using query_empty_store[of empty_world example_lib ?E "''How many hours?''" "''llama3''"]
      query_empty_store[OF h, of example_lib ?E "''How many hours?''" "''llama3''"]
    by (simp add: empty_world_def ensure_csv_exists_def csv_writerow_headers)
qed

subsection \<open>The inference client\<close>

lemma ollama_except_connection:
  "ollama_except (ConnectionError msg) =
     Inr (JStr ''Error: Could not connect to Ollama. Make sure Ollama is running (ollama serve).'')"
  by (simp add: ollama_except_def)

lemma ollama_except_request:
  assumes "is_RequestException e" and "\<not> is_ConnectionError e"
  shows "ollama_except e = Inr (JStr (''Error communicating with Ollama: '' @ exn_str e))"
  using assms by (simp add: ollama_except_def)

lemma ollama_except_json:
  "ollama_except (JSONDecodeError msg) =
     Inr (JStr ''Error: Received invalid response from Ollama.'')"
  by (simp add: ollama_except_def)

lemma json_get_missing:
  assumes "map_of kvs ''response'' = None"
  shows "json_get (JObj kvs) ''response'' dflt = Inr dflt"
  using assms by simp

text \<open>
  The exception \<^verbatim>\<open>requests\<close> raises for a body that is not JSON (since version 2.27) is
  a \<^verbatim>\<open>RequestException\<close>: the second handler takes it, and the third, written for
  it, is never reached.
\<close>

lemma ollama_except_requests_json:
  "ollama_except (RequestsJSONDecodeError msg) =
     Inr (JStr (''Error communicating with Ollama: '' @ msg))"
  by (simp add: ollama_except_def)

text \<open>
  Claim C1 says that \<^verbatim>\<open>query_tasks_with_ollama\<close> never raises. It does: a response
  with status 200 whose body is JSON but not an object (here the empty array) makes
  \<^verbatim>\<open>result.get\<close> raise \<^verbatim>\<open>AttributeError\<close>, which no handler catches.
\<close>

theorem non_object_body_raises:
  "snd (query_tasks_with_ollama example_lib
          (example_env (Inr \<lparr>status_code = 200, reason = ''OK'', json_body = Inr (JArr [])\<rparr>))
          ''How many hours?''
          [task_record ''2024-01-15T09:30:00'' ''2024-01-15'' ''Write report'' 35]
          ''llama3'' empty_world)
   = Inl (AttributeError ''list object has no attribute get'')"
  by (simp add: query_tasks_with_ollama_def build_prompt_def task_line_record
      ollama_request_def example_env_def raise_for_status_def ollama_except_def)

subsection \<open>The exit status of a query\<close>

lemma map_of_dict_set:
  "map_of (dict_set k v d) k' = (if k' = k then Some v else map_of d k')"
  by (induction d) auto

lemma dict_of_row_headers_keys: "has_prompt_keys (dict_of_row CSV_HEADERS r)"
proof -
  consider "r = []" | a where "r = [a]" | a b where "r = [a, b]" | a b c where "r = [a, b, c]"
    | a b c d rest where "r = a # b # c # d # rest"
    by (cases r; cases "tl r"; cases "tl (tl r)"; cases "tl (tl (tl r))") auto
  then show ?thesis
    by cases (simp_all add: dict_of_row_def CSV_HEADERS_def has_prompt_keys_def)
qed

lemma convert_hours_keys:
  assumes "convert_hours L row = Inr row'" and "has_prompt_keys row"
  shows "has_prompt_keys row'"
  using assms
  by (auto simp add: convert_hours_def has_prompt_keys_def map_of_dict_set getitem_def
      split: sum.splits pyval.splits option.splits)

lemma read_loop_keys:
  assumes "read_loop L CSV_HEADERS rows err acc = Inr tasks" and "list_all has_prompt_keys acc"
  shows "list_all has_prompt_keys tasks"
  using assms
proof (induction rows arbitrary: acc)
  case Nil
  then show ?case by (simp split: option.splits)
next
  case (Cons r rows)
  show ?case
  proof (cases "r = []")
    case True
    then show ?thesis using Cons by simp
  next
    case False
    then obtain row where row: "convert_hours L (dict_of_row CSV_HEADERS r) = Inr row"
      and rest: "read_loop L CSV_HEADERS rows err (acc @ [row]) = Inr tasks"
      using Cons.prems(1) by (auto split: sum.splits)
    have "has_prompt_keys row"
      using convert_hours_keys[OF row dict_of_row_headers_keys] .
    then show ?thesis using Cons.IH[OF rest] Cons.prems(2) by simp
  qed
qed

lemma task_line_keys:
  assumes "has_prompt_keys task"
  shows "\<exists>l. task_line L i task = Inr l"
  using assms by (auto simp add: task_line_def has_prompt_keys_def getitem_def)

lemma format_tasks_keys:
  assumes "list_all has_prompt_keys tasks"
  shows "\<exists>p. format_tasks L i tasks acc = Inr p"
  using assms
proof (induction tasks arbitrary: i acc)
  case Nil
  show ?case by simp
next
  case (Cons t tasks)
  then obtain l where "task_line L i t = Inr l" using task_line_keys[of t L i] by auto
  then show ?case using Cons by simp
qed

lemma ollama_except_message:
  assumes "is_RequestException e \<or> is_JSONDecodeError e"
  shows "ollama_except e = Inr (JStr (failure_message e))"
  using assms by (auto simp add: ollama_except_def failure_message_def)

lemma ollama_printed:
  assumes "answer_handled (post E OLLAMA_API_URL pl)"
  shows "\<exists>answer.
           (case ollama_request E pl of Inr answer \<Rightarrow> Inr answer | Inl e \<Rightarrow> ollama_except e)
             = Inr answer
           \<and> (case answer of JStr s \<Rightarrow> Line s | _ \<Rightarrow> Obj answer)
             = printed_answer (post E OLLAMA_API_URL pl)"
proof (cases "post E OLLAMA_API_URL pl")
  case (Inl e)
  then have "is_RequestException e \<or> is_JSONDecodeError e"
    using assms by (simp add: answer_handled_def)
  then show ?thesis using Inl
    by (simp add: ollama_request_def ollama_except_message printed_answer_def)
next
  case (Inr r)
  show ?thesis
  proof (cases "raise_for_status OLLAMA_API_URL r")
    case (Some e)
    then have "is_RequestException e"
      by (auto simp add: raise_for_status_def split: if_splits)
    then show ?thesis using Inr Some
      by (simp add: ollama_request_def ollama_except_message printed_answer_def)
  next
    case None
    show ?thesis
    proof (cases "json_body r")
      case (Inl e)
      then have "is_RequestException e \<or> is_JSONDecodeError e"
        using assms Inr None by (simp add: answer_handled_def)
      then show ?thesis using Inl Inr None
        by (simp add: ollama_request_def ollama_except_message printed_answer_def)
    next
      case (Inr j)
      then obtain kvs where "j = JObj kvs"
        using assms \<open>post E OLLAMA_API_URL pl = Inr r\<close> None
        by (cases j) (auto simp add: answer_handled_def)
      then show ?thesis using Inr \<open>post E OLLAMA_API_URL pl = Inr r\<close> None
        by (auto simp add: ollama_request_def printed_answer_def split: option.splits json.splits)
    qed
  qed
qed

lemma query_tasks_answer:
  assumes rt: "read_tasks L w = (w1, Inr tasks)" and ne: "tasks \<noteq> []"
    and keys: "list_all has_prompt_keys tasks"
    and svc: "\<forall>pl. answer_handled (post E OLLAMA_API_URL pl)"
  shows "\<exists>p. query_tasks L E question m w =
           (w1\<lparr>stdout := stdout w1 @
                  [Line (''Querying tasks using Ollama model '' @ [SQUOTE] @ m @ [SQUOTE] @ ''...''),
                   Line (''Question: '' @ question @ [LF]),
                   Line ([LF] @ ''Ollama Response:''),
                   printed_answer (post E OLLAMA_API_URL \<lparr>model = m, prompt = p, stream = False\<rparr>)],
                posts := posts w1 @ [(OLLAMA_API_URL, \<lparr>model = m, prompt = p, stream = False\<rparr>)]\<rparr>,
            None)"
proof -
  obtain td where "format_tasks L 1 tasks (''Task data:'' @ [LF]) = Inr td"
    using format_tasks_keys[OF keys] by blast
  then obtain p where p: "build_prompt L question tasks = Inr p"
    by (simp add: build_prompt_def)
  let ?pl = "\<lparr>model = m, prompt = p, stream = False\<rparr>"
  obtain answer where
    a: "(case ollama_request E ?pl of Inr answer \<Rightarrow> Inr answer | Inl e \<Rightarrow> ollama_except e)
          = Inr answer"
    and b: "(case answer of JStr s \<Rightarrow> Line s | _ \<Rightarrow> Obj answer)
          = printed_answer (post E OLLAMA_API_URL ?pl)"
    using ollama_printed[of E ?pl] svc by blast
  have "query_tasks L E question m w =
           (w1\<lparr>stdout := stdout w1 @
                  [Line (''Querying tasks using Ollama model '' @ [SQUOTE] @ m @ [SQUOTE] @ ''...''),
                   Line (''Question: '' @ question @ [LF]),
                   Line ([LF] @ ''Ollama Response:''),
                   printed_answer (post E OLLAMA_API_URL ?pl)],
                posts := posts w1 @ [(OLLAMA_API_URL, ?pl)]\<rparr>,
            None)"
    using rt ne p a b
    by (simp add: query_tasks_def query_tasks_with_ollama_def Let_def print_def print_value_def)
  then show ?thesis by blast
qed


text \<open>
  Claim C2, as stated for every content of the store, fails on a store with a row
  whose hours \<^verbatim>\<open>float\<close> rejects: the \<^verbatim>\<open>ValueError\<close> of \<^verbatim>\<open>read_tasks\<close> is caught
  nowhere, and the process ends with a traceback and status 1.
\<close>

theorem query_unparseable_store:
  "snd (main example_lib (example_env (Inl (ConnectionError [])))
      (Parsed (Query ''How many hours?'' ''llama3''))
      (empty_world\<lparr>csv_file := Some (csv_writerow CSV_HEADERS
          @ csv_writerow [''2024-01-14T08:00:00'', ''2024-01-14'', ''Write report'', ''abc''])\<rparr>))
   = Uncaught (ValueError ''could not convert string to float: abc'')
   \<and> exit_status (snd (main example_lib (example_env (Inl (ConnectionError [])))
      (Parsed (Query ''How many hours?'' ''llama3''))
      (empty_world\<lparr>csv_file := Some (csv_writerow CSV_HEADERS
          @ csv_writerow [''2024-01-14T08:00:00'', ''2024-01-14'', ''Write report'', ''abc''])\<rparr>)))
   \<noteq> 0"
proof -
  let ?r = "[''2024-01-14T08:00:00'', ''2024-01-14'', ''Write report'', ''abc'']"
  let ?w = "empty_world\<lparr>csv_file := Some (csv_writerow CSV_HEADERS @ concat (map csv_writerow [?r]))\<rparr>"
  have "read_tasks example_lib ?w =
          (?w, Inl (ValueError ''could not convert string to float: abc''))"
    using read_tasks_store[of ?w "[?r]" example_lib] convert_hours_row[of ?r example_lib]
    by (simp add: example_floats)
  then show ?thesis by (simp add: query_tasks_def)
qed

text \<open>
  Claim C2, amended. Let the store be absent or start with the header row, and let
  every answer of the service be one the client handles. If every row of the store
  (blank rows aside) converts, a \<^verbatim>\<open>query\<close> ends with status 0, and what it printed
  is \<^verbatim>\<open>No tasks found in the log.\<close> when the store has no record, and otherwise the
  two progress lines, the heading and the answer: the message of the failure, the
  field \<^verbatim>\<open>response\<close>, or the placeholder. A failure of the service is printed, not
  signalled by the exit status. If some row does not convert, the \<^verbatim>\<open>query\<close> ends
  with the exception of such a row uncaught and with status 1; the store is as before
  and nothing was printed or sent. (Standard output is taken to accept every text
  printed: encodings are outside the model.)
\<close>

theorem query_exit_status:
  assumes "(csv_file w = None \<and> rows = []) \<or>
           (\<exists>content. csv_file w = Some content \<and> fst (csv_reader content) = CSV_HEADERS # rows)"
    and "\<forall>pl. answer_handled (post E OLLAMA_API_URL pl)"
  shows "((\<exists>r\<in>set rows. r \<noteq> [] \<and> \<not> row_parses L r) \<longrightarrow>
            (\<exists>r\<in>set rows. r \<noteq> [] \<and> \<not> row_parses L r \<and>
               main L E (Parsed (Query question m)) w = (w, Uncaught (row_error r)))
            \<and> exit_status (snd (main L E (Parsed (Query question m)) w)) = 1)
       \<and> ((\<forall>r\<in>set rows. r = [] \<or> row_parses L r) \<longrightarrow>
            exit_status (snd (main L E (Parsed (Query question m)) w)) = 0
            \<and> (filter (\<lambda>r. r \<noteq> []) rows = [] \<longrightarrow>
                 stdout (fst (main L E (Parsed (Query question m)) w)) =
                   stdout w @ [Line ''No tasks found in the log.'']
                 \<and> posts (fst (main L E (Parsed (Query question m)) w)) = posts w)
            \<and> (filter (\<lambda>r. r \<noteq> []) rows \<noteq> [] \<longrightarrow>
                 (\<exists>p. posts (fst (main L E (Parsed (Query question m)) w)) =
                        posts w @ [(OLLAMA_API_URL, \<lparr>model = m, prompt = p, stream = False\<rparr>)]
                      \<and> stdout (fst (main L E (Parsed (Query question m)) w)) =
                        stdout w @
                        [Line (''Querying tasks using Ollama model '' @ [SQUOTE] @ m @ [SQUOTE]
                               @ ''...''),
                         Line (''Question: '' @ question @ [LF]),
                         Line ([LF] @ ''Ollama Response:''),
                         printed_answer
                           (post E OLLAMA_API_URL \<lparr>model = m, prompt = p, stream = False\<rparr>)])))"
proof (intro conjI impI)
  assume bad: "\<exists>r\<in>set rows. r \<noteq> [] \<and> \<not> row_parses L r"
  then have "rows \<noteq> []" by auto
  then obtain content where c: "csv_file w = Some content"
    and h: "fst (csv_reader content) = CSV_HEADERS # rows"
    using assms(1) by auto
  have rt: "read_tasks L w = (w, read_loop L CSV_HEADERS rows None [])"
    using read_tasks_existing[OF c, of L] h by simp
  obtain r where r: "r \<in> set rows" "r \<noteq> []" "\<not> row_parses L r"
    and e: "read_loop L CSV_HEADERS rows None [] = Inl (row_error r)"
    using read_loop_unparseable[OF bad, of None "[]"] by blast
  have m: "main L E (Parsed (Query question m)) w = (w, Uncaught (row_error r))"
    using rt e by (simp add: query_tasks_def)
  show "\<exists>r\<in>set rows. r \<noteq> [] \<and> \<not> row_parses L r \<and>
               main L E (Parsed (Query question m)) w = (w, Uncaught (row_error r))"
    using r m by blast
  show "exit_status (snd (main L E (Parsed (Query question m)) w)) = 1"
    using m by simp
next
  assume good: "\<forall>r\<in>set rows. r = [] \<or> row_parses L r"
  let ?tasks = "map (\<lambda>r. task_record (r ! 0) (r ! 1) (r ! 2) (the (float_of L (r ! 3))))
                    (filter (\<lambda>r. r \<noteq> []) rows)"
  have loop: "read_loop L CSV_HEADERS rows None [] = Inr ?tasks"
    using read_loop_parseable[OF good, of "[]"] by simp
  have rt: "read_tasks L w = (ensure_csv_exists w, Inr ?tasks)"
  proof (cases "csv_file w")
    case None
    then have "rows = []" using assms(1) by auto
    then show ?thesis using None read_tasks_empty_store[of w L]
      by (simp add: ensure_csv_exists_def)
  next
    case (Some c)
    then have "fst (csv_reader c) = CSV_HEADERS # rows" using assms(1) by auto
    then show ?thesis using read_tasks_existing[OF Some, of L] loop Some
      by (simp add: ensure_csv_exists_def)
  qed
  have keys: "list_all has_prompt_keys ?tasks"
    using read_loop_keys[OF loop] by simp
  have out: "stdout (ensure_csv_exists w) = stdout w" "posts (ensure_csv_exists w) = posts w"
    by (simp_all add: ensure_csv_exists_def)
  have empty: "filter (\<lambda>r. r \<noteq> []) rows = [] \<Longrightarrow>
      main L E (Parsed (Query question m)) w =
        ((ensure_csv_exists w)\<lparr>stdout := stdout w @ [Line ''No tasks found in the log.'']\<rparr>,
         Returned)"
    using rt out by (simp add: query_tasks_def print_def)
  have full: "filter (\<lambda>r. r \<noteq> []) rows \<noteq> [] \<Longrightarrow>
      \<exists>p. main L E (Parsed (Query question m)) w =
        ((ensure_csv_exists w)\<lparr>stdout := stdout w @
            [Line (''Querying tasks using Ollama model '' @ [SQUOTE] @ m @ [SQUOTE] @ ''...''),
             Line (''Question: '' @ question @ [LF]),
             Line ([LF] @ ''Ollama Response:''),
             printed_answer (post E OLLAMA_API_URL \<lparr>model = m, prompt = p, stream = False\<rparr>)],
           posts := posts w @ [(OLLAMA_API_URL, \<lparr>model = m, prompt = p, stream = False\<rparr>)]\<rparr>,
         Returned)"
  proof -
    assume ne: "filter (\<lambda>r. r \<noteq> []) rows \<noteq> []"
    then have "?tasks \<noteq> []" by simp
    from query_tasks_answer[OF rt this keys assms(2), of question m]
    show ?thesis using out by auto
  qed
  show "exit_status (snd (main L E (Parsed (Query question m)) w)) = 0"
    using empty full by (cases "filter (\<lambda>r. r \<noteq> []) rows = []") auto
  show "stdout (fst (main L E (Parsed (Query question m)) w)) =
          stdout w @ [Line ''No tasks found in the log.'']"
    if "filter (\<lambda>r. r \<noteq> []) rows = []"
    using empty[OF that] by simp
  show "posts (fst (main L E (Parsed (Query question m)) w)) = posts w"
    if "filter (\<lambda>r. r \<noteq> []) rows = []"
    using empty[OF that] out by simp
  show "\<exists>p. posts (fst (main L E (Parsed (Query question m)) w)) =
                        posts w @ [(OLLAMA_API_URL, \<lparr>model = m, prompt = p, stream = False\<rparr>)]
                      \<and> stdout (fst (main L E (Parsed (Query question m)) w)) =
                        stdout w @
                        [Line (''Querying tasks using Ollama model '' @ [SQUOTE] @ m @ [SQUOTE]
                               @ ''...''),
                         Line (''Question: '' @ question @ [LF]),
                         Line ([LF] @ ''Ollama Response:''),
                         printed_answer
                           (post E OLLAMA_API_URL \<lparr>model = m, prompt = p, stream = False\<rparr>)]"
    if "filter (\<lambda>r. r \<noteq> []) rows \<noteq> []"
    using full[OF that] by auto
qed

theorem query_exit_status_witness:
  "exit_status (snd (main example_lib (example_env (Inl (ConnectionError ''refused'')))
      (Parsed (Query ''How many hours?'' ''llama3''))
      (empty_world\<lparr>csv_file := Some (csv_writerow CSV_HEADERS
          @ csv_writerow [''2024-01-14T08:00:00'', ''2024-01-14'', ''Write report'', ''3.5''])\<rparr>)))
   = 0
   \<and> stdout (fst (main example_lib (example_env (Inl (ConnectionError ''refused'')))
      (Parsed (Query ''How many hours?'' ''llama3''))
      (empty_world\<lparr>csv_file := Some (csv_writerow CSV_HEADERS
          @ csv_writerow [''2024-01-14T08:00:00'', ''2024-01-14'', ''Write report'', ''3.5''])\<rparr>)))
   = [Line (''Querying tasks using Ollama model '' @ [SQUOTE] @ ''llama3'' @ [SQUOTE] @ ''...''),
      Line (''Question: How many hours?'' @ [LF]),
      Line ([LF] @ ''Ollama Response:''),
      Line ''Error: Could not connect to Ollama. Make sure Ollama is running (ollama serve).'']
   \<and> stdout (fst (main example_lib
      (example_env (Inr \<lparr>status_code = 200, reason = ''OK'', json_body = Inr (JObj [])\<rparr>))
      (Parsed (Query ''How many hours?'' ''llama3''))
      (empty_world\<lparr>csv_file := Some (csv_writerow CSV_HEADERS
          @ csv_writerow [''2024-01-14T08:00:00'', ''2024-01-14'', ''Write report'', ''3.5''])\<rparr>)))
   = [Line (''Querying tasks using Ollama model '' @ [SQUOTE] @ ''llama3'' @ [SQUOTE] @ ''...''),
      Line (''Question: How many hours?'' @ [LF]),
      Line ([LF] @ ''Ollama Response:''),
      Line ''No response received from Ollama.'']
   \<and> main example_lib (example_env (Inl (ConnectionError ''refused'')))
      (Parsed (Query ''How many hours?'' ''llama3''))
      (empty_world\<lparr>csv_file := Some (csv_writerow CSV_HEADERS
          @ csv_writerow [''2024-01-14T08:00:00'', ''2024-01-14'', ''Write report'', ''seven''])\<rparr>)
   = (empty_world\<lparr>csv_file := Some (csv_writerow CSV_HEADERS
          @ csv_writerow [''2024-01-14T08:00:00'', ''2024-01-14'', ''Write report'', ''seven''])\<rparr>,
      Uncaught (ValueError ''could not convert string to float: seven''))"
proof -
  let ?good = "[''2024-01-14T08:00:00'', ''2024-01-14'', ''Write report'', ''3.5'']"
  let ?bad = "[''2024-01-14T08:00:00'', ''2024-01-14'', ''Write report'', ''seven'']"
  let ?w = "\<lambda>r. empty_world\<lparr>csv_file := Some (csv_writerow CSV_HEADERS @ concat (map csv_writerow [r]))\<rparr>"
  let ?E1 = "example_env (Inl (ConnectionError ''refused''))"
  let ?E2 = "example_env (Inr \<lparr>status_code = 200, reason = ''OK'', json_body = Inr (JObj [])\<rparr>)"
  have store: "(csv_file (?w r) = None \<and> [r] = []) \<or>
      (\<exists>content. csv_file (?w r) = Some content \<and> fst (csv_reader content) = CSV_HEADERS # [r])"
    for r
    using csv_reader_store[of "[r]"] by simp
  have s1: "\<forall>pl. answer_handled (post ?E1 OLLAMA_API_URL pl)"
    by (simp add: example_env_def answer_handled_def)
  have s2: "\<forall>pl. answer_handled (post ?E2 OLLAMA_API_URL pl)"
    by (simp add: example_env_def answer_handled_def raise_for_status_def)
  have p1: "printed_answer (post ?E1 u pl) =
              Line ''Error: Could not connect to Ollama. Make sure Ollama is running (ollama serve).''"
    for u pl
    by (simp add: example_env_def printed_answer_def failure_message_def)
  have p2: "printed_answer (post ?E2 u pl) = Line ''No response received from Ollama.''" for u pl
    by (simp add: example_env_def printed_answer_def raise_for_status_def)
  have g: "row_parses example_lib ?good" "\<not> row_parses example_lib ?bad"
    by (simp_all add: row_parses_def example_lib_def tenths_of_def unsigned_tenths_of_def
        is_digit_def nat_of_digits_def)
  have e: "row_error ?bad = ValueError ''could not convert string to float: seven''"
    by (simp add: row_error_def)
  show ?thesis
    using query_exit_status[OF store[of ?good] s1, of example_lib "''How many hours?''" "''llama3''"]
      query_exit_status[OF store[of ?good] s2, of example_lib "''How many hours?''" "''llama3''"]
      query_exit_status[OF store[of ?bad] s1, of example_lib "''How many hours?''" "''llama3''"]
    by (simp add: g e p1 p2 empty_world_def)
qed

end
